theory Spec2Isabelle
  imports Main "HOL-Library.Word" "HOL-Library.AList"
begin

chapter \<open>Excerpts of the content module of a browser engine\<close>

text \<open>
  The sources are unrelated files of the \<^verbatim>\<open>content\<close> module: the IndexedDB dispatcher
  host, the service worker network provider of a frame, the DevTools context that logs the
  events of background services, helpers of the web tests, and the unit test of the cookie
  store manager. Each section below embeds the functions of one of them: a C++ class is a
  record of its members, a method a function from the state before to the state after, an
  enum a datatype. What a function takes from classes outside the sources (the clock, the
  storage of the service workers, GUIDs, parsed URLs) is an argument of its model. The
  properties proved follow the definitions, in the same order.
\<close>

section \<open>IndexedDB dispatcher host: status translation\<close>

text \<open>
  \<^verbatim>\<open>GetIndexedDBStatus\<close> and its callers in
  \<^verbatim>\<open>browser/indexed_db/indexed_db_dispatcher_host.cc\<close>.
  A \<^verbatim>\<open>leveldb::Status\<close> carries a code and a message; \<^verbatim>\<open>ok()\<close>,
  \<^verbatim>\<open>IsNotFound()\<close>, ... test the code. The class lives in the LevelDB library, so its
  codes are listed here as a datatype, in the library's order.
\<close>

datatype leveldb_Code =
  kOk | kNotFound | kCorruption | kNotSupported | kInvalidArgument | kIOError

record leveldb_Status =
  code :: leveldb_Code
  msg :: string

definition ok :: "leveldb_Status \<Rightarrow> bool" where
  "ok s = (code s = kOk)"

definition IsNotFound :: "leveldb_Status \<Rightarrow> bool" where
  "IsNotFound s = (code s = kNotFound)"

definition IsCorruption :: "leveldb_Status \<Rightarrow> bool" where
  "IsCorruption s = (code s = kCorruption)"

definition IsNotSupportedError :: "leveldb_Status \<Rightarrow> bool" where
  "IsNotSupportedError s = (code s = kNotSupported)"

definition IsInvalidArgument :: "leveldb_Status \<Rightarrow> bool" where
  "IsInvalidArgument s = (code s = kInvalidArgument)"

text \<open>\<^verbatim>\<open>blink::mojom::IDBStatus\<close>, the values the function returns.\<close>

datatype IDBStatus =
  IDB_OK | IDB_NotFound | IDB_Corruption | IDB_NotSupported | IDB_InvalidArgument
  | IDB_IOError

definition GetIndexedDBStatus :: "leveldb_Status \<Rightarrow> IDBStatus" where
  "GetIndexedDBStatus status =
     (if ok status then IDB_OK
      else if IsNotFound status then IDB_NotFound
      else if IsCorruption status then IDB_Corruption
      else if IsNotSupportedError status then IDB_NotSupported
      else if IsInvalidArgument status then IDB_InvalidArgument
      else IDB_IOError)"

text \<open>
  The two adapters run the Mojo callback on the translated status. A callback is a
  function from the status it receives to the effect \<open>'r\<close> of running it.
\<close>

definition CallCompactionStatusCallbackOnIDBThread ::
  "(IDBStatus \<Rightarrow> 'r) \<Rightarrow> leveldb_Status \<Rightarrow> 'r" where
  "CallCompactionStatusCallbackOnIDBThread mojo_callback status =
     mojo_callback (GetIndexedDBStatus status)"

definition CallAbortStatusCallbackOnIDBThread ::
  "(IDBStatus \<Rightarrow> 'r) \<Rightarrow> leveldb_Status \<Rightarrow> 'r" where
  "CallAbortStatusCallbackOnIDBThread mojo_callback status =
     mojo_callback (GetIndexedDBStatus status)"

text \<open>
  The dispatcher host binds the adapter to the Mojo callback and hands it, with the origin
  of the current receiver, to the IndexedDB factory. The factory is outside this file: it
  is the parameter \<open>factory_op\<close>, which gets the bound callback and the origin.
\<close>

definition AbortTransactionsAndCompactDatabase ::
  "((leveldb_Status \<Rightarrow> 'r) \<Rightarrow> 'o \<Rightarrow> 'r) \<Rightarrow> 'o \<Rightarrow> (IDBStatus \<Rightarrow> 'r) \<Rightarrow> 'r" where
  "AbortTransactionsAndCompactDatabase factory_op current_origin mojo_callback =
     (let callback_on_io = CallCompactionStatusCallbackOnIDBThread mojo_callback
      in factory_op callback_on_io current_origin)"

definition AbortTransactionsForDatabase ::
  "((leveldb_Status \<Rightarrow> 'r) \<Rightarrow> 'o \<Rightarrow> 'r) \<Rightarrow> 'o \<Rightarrow> (IDBStatus \<Rightarrow> 'r) \<Rightarrow> 'r" where
  "AbortTransactionsForDatabase factory_op current_origin mojo_callback =
     (let callback_on_io = CallAbortStatusCallbackOnIDBThread mojo_callback
      in factory_op callback_on_io current_origin)"

section \<open>IndexedDB dispatcher host: blobs and their file readers\<close>

text \<open>
  \<^verbatim>\<open>IndexedDBDataItemReader\<close>, \<^verbatim>\<open>BindFileReader\<close>, \<^verbatim>\<open>RemoveBoundReaders\<close> and
  \<^verbatim>\<open>CreateAllExternalObjects\<close> of \<^verbatim>\<open>indexed_db_dispatcher_host.cc\<close>.
  A message pipe is the number it got when it was created; the host counts the pipes and
  the GUIDs made so far. Times are microsecond counts, the null time is 0.
\<close>

text \<open>
  \<^verbatim>\<open>storage::mojom::BlobDataItemType\<close>, the enum of the blob storage interface that
  says which storage a data item comes from.
\<close>

datatype BlobDataItemType = kUnknown | kCacheStorage | kIndexedDB

record BlobDataItem =
  item_type :: BlobDataItemType
  item_size :: int
  side_data_size :: int
  content_type :: string
  item_reader :: nat

datatype ObjectType = kBlob | kFile | kNativeFileSystemHandle

text \<open>
  What \<^verbatim>\<open>CreateAllExternalObjects\<close> reads of an \<^verbatim>\<open>IndexedDBExternalObject\<close>. The
  content type is a UTF-16 string, a list of 16-bit code units.
\<close>

record IndexedDBExternalObject =
  object_type :: ObjectType
  is_remote_valid :: bool
  uuid :: string
  blob_size :: int
  blob_type :: "16 word list"
  last_modified :: int
  indexed_db_file_path :: string
  release_callback :: nat
  is_native_file_system_remote_valid :: bool
  native_file_system_token :: "8 word list"

text \<open>The Mojo objects the function fills in: a union of a blob or file and a token.\<close>

record IDBBlobInfo =
  blob :: "nat option"
  blob_uuid :: string

datatype IDBExternalObject =
  blob_or_file IDBBlobInfo
  | native_file_system_token_remote "nat option"

text \<open>
  The reader of one file: the receivers bound to it, the path, the modification time
  expected and the callback its destructor runs.
\<close>

record IndexedDBDataItemReader =
  receivers :: "nat list"
  file_path :: string
  expected_modification_time :: int
  reader_release_callback :: nat

text \<open>The calls that leave the host, in the order made.\<close>

datatype 'o outside_call =
  Clone string nat
  | RegisterFromDataItem nat string BlobDataItem
  | CloneToken nat
  | DeserializeHandle 'o "8 word list" nat
  | RunReleaseCallback nat

record 'o IndexedDBDispatcherHost =
  file_reader_map :: "string \<rightharpoonup> IndexedDBDataItemReader"
  pipes_created :: nat
  guids_generated :: nat
  outside_calls :: "'o outside_call list"

definition AddReader :: "nat \<Rightarrow> IndexedDBDataItemReader \<Rightarrow> IndexedDBDataItemReader" where
  "AddReader receiver r = r\<lparr>receivers := receivers r @ [receiver]\<rparr>"

definition BindFileReader ::
  "string \<Rightarrow> int \<Rightarrow> nat \<Rightarrow> nat \<Rightarrow> 'o IndexedDBDispatcherHost \<Rightarrow> 'o IndexedDBDispatcherHost"
  where
  "BindFileReader path modification_time callback receiver host =
     (case file_reader_map host path of
        Some r \<Rightarrow> host\<lparr>file_reader_map := (file_reader_map host)(path \<mapsto> AddReader receiver r)\<rparr>
      | None \<Rightarrow>
          host\<lparr>file_reader_map := (file_reader_map host)(path \<mapsto>
                 \<lparr>receivers = [receiver], file_path = path,
                  expected_modification_time = modification_time,
                  reader_release_callback = callback\<rparr>)\<rparr>)"

text \<open>Erasing a reader destroys it, and its destructor runs the release callback.\<close>

definition RemoveBoundReaders ::
  "string \<Rightarrow> 'o IndexedDBDispatcherHost \<Rightarrow> 'o IndexedDBDispatcherHost" where
  "RemoveBoundReaders path host =
     (case file_reader_map host path of
        None \<Rightarrow> host
      | Some r \<Rightarrow>
          host\<lparr>file_reader_map := (file_reader_map host)(path := None),
               outside_calls := outside_calls host
                 @ [RunReleaseCallback (reader_release_callback r)]\<rparr>)"

text \<open>
  The receiver set drops the receiver whose client went away and then calls the handler,
  which removes the reader once no receiver is left.
\<close>

definition OnClientDisconnected ::
  "string \<Rightarrow> nat \<Rightarrow> 'o IndexedDBDispatcherHost \<Rightarrow> 'o IndexedDBDispatcherHost" where
  "OnClientDisconnected path receiver host =
     (case file_reader_map host path of
        None \<Rightarrow> host
      | Some r \<Rightarrow>
          let r1 = r\<lparr>receivers := removeAll receiver (receivers r)\<rparr>;
              host1 = host\<lparr>file_reader_map := (file_reader_map host)(path \<mapsto> r1)\<rparr>
          in if receivers r1 \<noteq> [] then host1 else RemoveBoundReaders path host1)"

text \<open>
  \<^verbatim>\<open>Read\<close> starts a stream reader on the file at the offset and hands it, with the
  pipe and the length, to the IO task runner; the result comes back on the sequence of the
  call. The reading itself belongs to other classes: the model gives the request made.
\<close>

record ReadRequest =
  read_file :: string
  read_offset :: nat
  read_length :: nat
  read_expected_modification_time :: int
  read_pipe :: nat

definition Read :: "IndexedDBDataItemReader \<Rightarrow> nat \<Rightarrow> nat \<Rightarrow> nat \<Rightarrow> ReadRequest" where
  "Read r offset len pipe =
     \<lparr>read_file = file_path r, read_offset = offset, read_length = len,
      read_expected_modification_time = expected_modification_time r, read_pipe = pipe\<rparr>"

text \<open>\<^verbatim>\<open>net::ERR_NOT_IMPLEMENTED\<close> is error -11 of the network error list.\<close>

definition ERR_NOT_IMPLEMENTED :: int where
  "ERR_NOT_IMPLEMENTED = - 11"

definition ReadSideData :: "IndexedDBDataItemReader \<Rightarrow> int \<times> 8 word list" where
  "ReadSideData r = (ERR_NOT_IMPLEMENTED, [])"

text \<open>
  One turn of the loop of \<^verbatim>\<open>CreateAllExternalObjects\<close>, for the object and the Mojo
  object at one index. \<open>GenerateGUID\<close> gives the GUID generated n-th, \<open>UTF16ToUTF8\<close> is
  the conversion of the base library, \<open>OS_ANDROID\<close> the build flag. A \<^verbatim>\<open>DCHECK\<close>
  that does not hold ends the turn with a failure.
\<close>

datatype dcheck_failure = DCHECK_failed

definition CreateExternalObject ::
  "(nat \<Rightarrow> string) \<Rightarrow> (16 word list \<Rightarrow> string) \<Rightarrow> bool \<Rightarrow> 'o
     \<Rightarrow> IndexedDBExternalObject \<Rightarrow> IDBExternalObject \<Rightarrow> 'o IndexedDBDispatcherHost
     \<Rightarrow> dcheck_failure + (IDBExternalObject \<times> 'o IndexedDBDispatcherHost)" where
  "CreateExternalObject GenerateGUID UTF16ToUTF8 OS_ANDROID current_origin blob_info
       mojo_object host =
     (if object_type blob_info = kBlob \<or> object_type blob_info = kFile then
        (case mojo_object of
           native_file_system_token_remote t \<Rightarrow> Inl DCHECK_failed
         | blob_or_file output_info \<Rightarrow>
             let receiver = pipes_created host;
                 host1 = host\<lparr>pipes_created := Suc (pipes_created host)\<rparr>;
                 output_info1 = output_info\<lparr>blob := Some receiver\<rparr>
             in if is_remote_valid blob_info then
                  Inr (blob_or_file (output_info1\<lparr>blob_uuid := uuid blob_info\<rparr>),
                       host1\<lparr>outside_calls := outside_calls host1
                                @ [Clone (uuid blob_info) receiver]\<rparr>)
                else
                  let reader_pipe = pipes_created host1;
                      host2 = host1\<lparr>pipes_created := Suc (pipes_created host1)\<rparr>;
                      element = \<lparr>item_type = kIndexedDB,
                                 item_size = blob_size blob_info,
                                 side_data_size = 0,
                                 content_type = UTF16ToUTF8 (blob_type blob_info),
                                 item_reader = reader_pipe\<rparr>;
                      modified = (if OS_ANDROID then 0 else last_modified blob_info);
                      host3 = BindFileReader (indexed_db_file_path blob_info) modified
                                (release_callback blob_info) reader_pipe host2;
                      new_uuid = GenerateGUID (guids_generated host3);
                      host4 = host3\<lparr>guids_generated := Suc (guids_generated host3)\<rparr>
                  in Inr (blob_or_file (output_info1\<lparr>blob_uuid := new_uuid\<rparr>),
                          host4\<lparr>outside_calls := outside_calls host4
                                   @ [RegisterFromDataItem receiver new_uuid element]\<rparr>))
      else
        (case mojo_object of
           blob_or_file output_info \<Rightarrow> Inl DCHECK_failed
         | native_file_system_token_remote t \<Rightarrow>
             let token_pipe = pipes_created host;
                 host1 = host\<lparr>pipes_created := Suc (pipes_created host)\<rparr>
             in if is_native_file_system_remote_valid blob_info then
                  Inr (native_file_system_token_remote (Some token_pipe),
                       host1\<lparr>outside_calls := outside_calls host1 @ [CloneToken token_pipe]\<rparr>)
                else if native_file_system_token blob_info = [] then Inl DCHECK_failed
                else
                  Inr (native_file_system_token_remote (Some token_pipe),
                       host1\<lparr>outside_calls := outside_calls host1
                                @ [DeserializeHandle current_origin
                                     (native_file_system_token blob_info) token_pipe]\<rparr>)))"

fun CreateExternalObjects_loop ::
  "(nat \<Rightarrow> string) \<Rightarrow> (16 word list \<Rightarrow> string) \<Rightarrow> bool \<Rightarrow> 'o
     \<Rightarrow> IndexedDBExternalObject list \<Rightarrow> IDBExternalObject list \<Rightarrow> 'o IndexedDBDispatcherHost
     \<Rightarrow> dcheck_failure + (IDBExternalObject list \<times> 'o IndexedDBDispatcherHost)" where
  "CreateExternalObjects_loop GenerateGUID UTF16ToUTF8 OS_ANDROID current_origin
       (blob_info # objects) (mojo_object # mojo_objects) host =
     (case CreateExternalObject GenerateGUID UTF16ToUTF8 OS_ANDROID current_origin blob_info
             mojo_object host of
        Inl failure \<Rightarrow> Inl failure
      | Inr (mojo_object1, host1) \<Rightarrow>
          (case CreateExternalObjects_loop GenerateGUID UTF16ToUTF8 OS_ANDROID current_origin
                  objects mojo_objects host1 of
             Inl failure \<Rightarrow> Inl failure
           | Inr (mojo_objects1, host2) \<Rightarrow> Inr (mojo_object1 # mojo_objects1, host2)))"
| "CreateExternalObjects_loop GenerateGUID UTF16ToUTF8 OS_ANDROID current_origin
       objects mojo_objects host = Inr (mojo_objects, host)"

definition CreateAllExternalObjects ::
  "(nat \<Rightarrow> string) \<Rightarrow> (16 word list \<Rightarrow> string) \<Rightarrow> bool \<Rightarrow> 'o
     \<Rightarrow> IndexedDBExternalObject list \<Rightarrow> IDBExternalObject list \<Rightarrow> 'o IndexedDBDispatcherHost
     \<Rightarrow> dcheck_failure + (IDBExternalObject list \<times> 'o IndexedDBDispatcherHost)" where
  "CreateAllExternalObjects GenerateGUID UTF16ToUTF8 OS_ANDROID current_origin objects
       mojo_objects host =
     (if length objects \<noteq> length mojo_objects then Inl DCHECK_failed
      else if objects = [] then Inr (mojo_objects, host)
      else CreateExternalObjects_loop GenerateGUID UTF16ToUTF8 OS_ANDROID current_origin
             objects mojo_objects host)"

text \<open>The data items registered with the blob storage context so far.\<close>

fun registered_items :: "'o outside_call list \<Rightarrow> BlobDataItem list" where
  "registered_items [] = []"
| "registered_items (RegisterFromDataItem receiver new_uuid element # calls) =
     element # registered_items calls"
| "registered_items (c # calls) = registered_items calls"

text \<open>
  Two notions for the properties below: an object for which the loop makes a data item and
  binds a file reader (a blob or file without a valid remote), and a pipe that is among the
  receivers of the reader kept under a path.
\<close>

definition needs_file_reader :: "IndexedDBExternalObject \<Rightarrow> bool" where
  "needs_file_reader blob_info =
     ((object_type blob_info = kBlob \<or> object_type blob_info = kFile)
      \<and> \<not> is_remote_valid blob_info)"

definition bound_reader :: "'o IndexedDBDispatcherHost \<Rightarrow> string \<Rightarrow> nat \<Rightarrow> bool" where
  "bound_reader host path pipe =
     (case file_reader_map host path of
        None \<Rightarrow> False
      | Some r \<Rightarrow> pipe \<in> set (receivers r))"

text \<open>
  The item made for an object, as the loop fills it in and as the host holds its reader at
  the end: of IndexedDB's type, without side data, with the object's size and content type,
  and with a reader pipe bound to the reader of the object's file.
\<close>

definition item_serves ::
  "(16 word list \<Rightarrow> string) \<Rightarrow> 'o IndexedDBDispatcherHost \<Rightarrow> BlobDataItem
     \<Rightarrow> IndexedDBExternalObject \<Rightarrow> bool" where
  "item_serves UTF16ToUTF8 host item blob_info =
     (item_type item = kIndexedDB
      \<and> side_data_size item = 0
      \<and> item_size item = blob_size blob_info
      \<and> content_type item = UTF16ToUTF8 (blob_type blob_info)
      \<and> bound_reader host (indexed_db_file_path blob_info) (item_reader item))"

section \<open>Service worker network provider for frames\<close>

text \<open>
  \<^verbatim>\<open>ServiceWorkerNetworkProviderForFrame\<close>
  (\<^verbatim>\<open>service_worker_network_provider_for_frame.cc\<close>, the file
  \<^verbatim>\<open>unnamed/part_006\<close>). The provider holds a reference to a
  \<^verbatim>\<open>ServiceWorkerProviderContext\<close>, or none, and an observer of its frame, or none.
  The context and the frame are classes of other files: the records below hold what the
  provider reads from them and what its calls change in them. The members
  \<^verbatim>\<open>context_\<close> and \<^verbatim>\<open>observer_\<close> are the fields \<open>provider_context\<close> and
  \<open>provider_observer\<close> (a name cannot end in an underscore here).
\<close>

datatype ControllerServiceWorkerMode = kNoController | kNoFetchEventHandler | kControlled

text \<open>\<^verbatim>\<open>blink::mojom::kInvalidServiceWorkerVersionId\<close>, declared in the mojom as -1.\<close>

definition kInvalidServiceWorkerVersionId :: int where
  "kInvalidServiceWorkerVersionId = - 1"

record ServiceWorkerProviderContext =
  fetch_request_window_id :: nat
  SubresourceLoaderFactory :: "nat option"
  controller_mode :: ControllerServiceWorkerMode
  ControllerVersionId :: int
  pending_worker_timing_receivers :: "int \<rightharpoonup> nat"
  network_quiet_dispatched :: nat
  execution_ready :: bool
  network_provider_destroyed :: bool

datatype WebFeature = kServiceWorkerInterceptedRequestFromOriginDirtyStyleSheet

record RenderFrameImpl =
  feature_usage_reports :: "WebFeature list"
  keep_alive_handles_issued :: nat

record WebURLRequest =
  Url :: string
  SkipServiceWorker :: bool
  FromOriginDirtyStyleSheet :: bool
  Keepalive :: bool
  FetchWindowId :: "nat option"

record WebURLLoaderImpl =
  resource_dispatcher :: nat
  task_runner_handle :: nat
  url_loader_factory :: nat
  keep_alive_handle :: "nat option"

record ServiceWorkerNetworkProviderForFrame =
  provider_context :: "ServiceWorkerProviderContext option"
  provider_observer :: "RenderFrameImpl option"

text \<open>The constructor creates the observer only for a frame that is not null.\<close>

definition ServiceWorkerNetworkProviderForFrame_ctor ::
  "RenderFrameImpl option \<Rightarrow> ServiceWorkerNetworkProviderForFrame" where
  "ServiceWorkerNetworkProviderForFrame_ctor frame =
     \<lparr>provider_context = None,
      provider_observer = (case frame of None \<Rightarrow> None | Some f \<Rightarrow> Some f)\<rparr>"

definition Create ::
  "RenderFrameImpl option \<Rightarrow> ServiceWorkerProviderContext
     \<Rightarrow> ServiceWorkerNetworkProviderForFrame" where
  "Create frame new_context =
     (ServiceWorkerNetworkProviderForFrame_ctor frame)\<lparr>provider_context := Some new_context\<rparr>"

definition CreateInvalidInstance :: ServiceWorkerNetworkProviderForFrame where
  "CreateInvalidInstance = ServiceWorkerNetworkProviderForFrame_ctor None"

definition WillSendRequest ::
  "ServiceWorkerNetworkProviderForFrame \<Rightarrow> WebURLRequest \<Rightarrow> WebURLRequest" where
  "WillSendRequest p request =
     (case provider_context p of
        Some ctx \<Rightarrow> request\<lparr>FetchWindowId := Some (fetch_request_window_id ctx)\<rparr>
      | None \<Rightarrow> request)"

text \<open>
  \<^verbatim>\<open>CreateURLLoader\<close>. \<open>render_thread\<close> is \<^verbatim>\<open>RenderThreadImpl::current()\<close> (its
  resource dispatcher, or null); the two URL tests belong to GURL and to the embedder and
  are parameters. With \<^verbatim>\<open>keepalive\<close> set the code dereferences \<^verbatim>\<open>observer_\<close>
  without a test: a null observer there is a crash.
\<close>

datatype crash = NullPointerDereference

definition CreateURLLoader ::
  "nat option \<Rightarrow> (string \<Rightarrow> bool) \<Rightarrow> (string \<Rightarrow> bool)
     \<Rightarrow> ServiceWorkerNetworkProviderForFrame \<Rightarrow> WebURLRequest \<Rightarrow> nat
     \<Rightarrow> crash + (WebURLLoaderImpl option \<times> ServiceWorkerNetworkProviderForFrame)" where
  "CreateURLLoader render_thread SchemeIsHTTPOrHTTPS OriginCanAccessServiceWorkers
       p request handle =
     (case render_thread of
        None \<Rightarrow> Inr (None, p)
      | Some dispatcher \<Rightarrow>
        (case provider_context p of
           None \<Rightarrow> Inr (None, p)
         | Some ctx \<Rightarrow>
           (case SubresourceLoaderFactory ctx of
              None \<Rightarrow> Inr (None, p)
            | Some factory \<Rightarrow>
                if \<not> SchemeIsHTTPOrHTTPS (Url request)
                   \<and> \<not> OriginCanAccessServiceWorkers (Url request)
                then Inr (None, p)
                else if SkipServiceWorker request then Inr (None, p)
                else
                  let p1 =
                    (case provider_observer p of
                       Some frame \<Rightarrow>
                         if FromOriginDirtyStyleSheet request
                         then p\<lparr>provider_observer := Some (frame\<lparr>feature_usage_reports :=
                            feature_usage_reports frame
                              @ [kServiceWorkerInterceptedRequestFromOriginDirtyStyleSheet]\<rparr>)\<rparr>
                         else p
                     | None \<Rightarrow> p)
                  in
                  if Keepalive request then
                    (case provider_observer p1 of
                       None \<Rightarrow> Inl NullPointerDereference
                     | Some frame \<Rightarrow>
                         Inr (Some \<lparr>resource_dispatcher = dispatcher,
                                    task_runner_handle = handle,
                                    url_loader_factory = factory,
                                    keep_alive_handle = Some (keep_alive_handles_issued frame)\<rparr>,
                              p1\<lparr>provider_observer := Some (frame\<lparr>keep_alive_handles_issued :=
                                 Suc (keep_alive_handles_issued frame)\<rparr>)\<rparr>))
                  else
                    Inr (Some \<lparr>resource_dispatcher = dispatcher,
                               task_runner_handle = handle,
                               url_loader_factory = factory,
                               keep_alive_handle = None\<rparr>, p1))))"

definition GetControllerServiceWorkerMode ::
  "ServiceWorkerNetworkProviderForFrame \<Rightarrow> ControllerServiceWorkerMode" where
  "GetControllerServiceWorkerMode p =
     (case provider_context p of None \<Rightarrow> kNoController | Some ctx \<Rightarrow> controller_mode ctx)"

definition ControllerServiceWorkerID :: "ServiceWorkerNetworkProviderForFrame \<Rightarrow> int" where
  "ControllerServiceWorkerID p =
     (case provider_context p of
        None \<Rightarrow> kInvalidServiceWorkerVersionId
      | Some ctx \<Rightarrow> ControllerVersionId ctx)"

definition DispatchNetworkQuiet ::
  "ServiceWorkerNetworkProviderForFrame \<Rightarrow> ServiceWorkerNetworkProviderForFrame" where
  "DispatchNetworkQuiet p =
     (case provider_context p of
        None \<Rightarrow> p
      | Some ctx \<Rightarrow>
          p\<lparr>provider_context := Some (ctx\<lparr>network_quiet_dispatched :=
             Suc (network_quiet_dispatched ctx)\<rparr>)\<rparr>)"

text \<open>
  The pipe handle returned is \<open>None\<close> for the empty handle \<^verbatim>\<open>{}\<close>. The context gives
  up the receiver it holds for the request, if any.
\<close>

definition TakePendingWorkerTimingReceiver ::
  "ServiceWorkerNetworkProviderForFrame \<Rightarrow> int
     \<Rightarrow> nat option \<times> ServiceWorkerNetworkProviderForFrame" where
  "TakePendingWorkerTimingReceiver p request_id =
     (case provider_context p of
        None \<Rightarrow> (None, p)
      | Some ctx \<Rightarrow>
          (pending_worker_timing_receivers ctx request_id,
           p\<lparr>provider_context := Some (ctx\<lparr>pending_worker_timing_receivers :=
              (pending_worker_timing_receivers ctx)(request_id := None)\<rparr>)\<rparr>))"

definition NotifyExecutionReady ::
  "ServiceWorkerNetworkProviderForFrame \<Rightarrow> ServiceWorkerNetworkProviderForFrame" where
  "NotifyExecutionReady p =
     (case provider_context p of
        None \<Rightarrow> p
      | Some ctx \<Rightarrow> p\<lparr>provider_context := Some (ctx\<lparr>execution_ready := True\<rparr>)\<rparr>)"

text \<open>The destructor tells the context, if there is one, that the provider is gone.\<close>

definition ServiceWorkerNetworkProviderForFrame_dtor ::
  "ServiceWorkerNetworkProviderForFrame \<Rightarrow> ServiceWorkerProviderContext option" where
  "ServiceWorkerNetworkProviderForFrame_dtor p =
     (case provider_context p of
        None \<Rightarrow> None
      | Some ctx \<Rightarrow> Some (ctx\<lparr>network_provider_destroyed := True\<rparr>))"

text \<open>
  \<^verbatim>\<open>NewDocumentObserver::DidCreateNewDocument\<close>: the provider the document loader
  holds afterwards. A document whose security origin is opaque gets the invalid instance in
  place of its provider; otherwise the provider is told that execution is ready.
\<close>

definition DidCreateNewDocument ::
  "bool \<Rightarrow> ServiceWorkerNetworkProviderForFrame \<Rightarrow> ServiceWorkerNetworkProviderForFrame"
  where
  "DidCreateNewDocument security_origin_is_opaque owner =
     (if security_origin_is_opaque then CreateInvalidInstance else NotifyExecutionReady owner)"

section \<open>Cookie store: subscriptions of service workers\<close>

text \<open>
  \<^verbatim>\<open>cookie_store_manager_unittest.cc\<close> drives the \<^verbatim>\<open>CookieStore\<close> service of an origin
  through \<^verbatim>\<open>AddSubscriptions\<close>, \<^verbatim>\<open>RemoveSubscriptions\<close> and
  \<^verbatim>\<open>GetSubscriptions\<close>. A subscription has the three fields the tests set and read.
\<close>

datatype CookieMatchType = EQUALS | STARTS_WITH

record CookieChangeSubscription =
  subscription_name :: string
  subscription_match_type :: CookieMatchType
  subscription_url :: string

text \<open>
  Modelled from the spec: the cookie store manager behind the service
  (\<^verbatim>\<open>content/browser/cookie_store/cookie_store_manager.cc\<close>), which is not among the
  sources. The specification calls it a thin CRUD-like filter over an externally-owned
  cookie engine, and the tests say what the three calls do: the manager keeps,
  for each service worker registration id, the subscriptions added and not removed. A call
  for a registration that does not exist fails; a call through the service of another
  origin than the registration's is answered with the bad message
  \<^verbatim>\<open>Invalid service worker\<close>; an addition of a subscription whose URL is of another
  origin with the bad message \<^verbatim>\<open>Invalid subscription URL\<close>. The registrations are made
  elsewhere: the manager sees the origin of each. \<open>url_origin\<close> gives the origin of a URL.
\<close>

record CookieStoreManager =
  registration_origin :: "int \<rightharpoonup> string"
  subscriptions_by_registration :: "int \<Rightarrow> CookieChangeSubscription list"
  bad_messages :: "string list"

definition ReportBadMessage :: "string \<Rightarrow> CookieStoreManager \<Rightarrow> CookieStoreManager" where
  "ReportBadMessage message m = m\<lparr>bad_messages := bad_messages m @ [message]\<rparr>"

definition AddSubscriptions ::
  "(string \<Rightarrow> string) \<Rightarrow> string \<Rightarrow> int \<Rightarrow> CookieChangeSubscription list
     \<Rightarrow> CookieStoreManager \<Rightarrow> bool \<times> CookieStoreManager" where
  "AddSubscriptions url_origin service_origin worker_registration_id subscriptions m =
     (case registration_origin m worker_registration_id of
        None \<Rightarrow> (False, m)
      | Some worker_origin \<Rightarrow>
          if worker_origin \<noteq> service_origin
          then (False, ReportBadMessage ''Invalid service worker'' m)
          else if \<exists>s\<in>set subscriptions. url_origin (subscription_url s) \<noteq> service_origin
          then (False, ReportBadMessage ''Invalid subscription URL'' m)
          else
            let kept = subscriptions_by_registration m worker_registration_id
            in (True,
                m\<lparr>subscriptions_by_registration :=
                    (subscriptions_by_registration m)(worker_registration_id :=
                       kept @ filter (\<lambda>s. s \<notin> set kept) (remdups subscriptions))\<rparr>))"

definition RemoveSubscriptions ::
  "string \<Rightarrow> int \<Rightarrow> CookieChangeSubscription list
     \<Rightarrow> CookieStoreManager \<Rightarrow> bool \<times> CookieStoreManager" where
  "RemoveSubscriptions service_origin worker_registration_id subscriptions m =
     (case registration_origin m worker_registration_id of
        None \<Rightarrow> (False, m)
      | Some worker_origin \<Rightarrow>
          if worker_origin \<noteq> service_origin
          then (False, ReportBadMessage ''Invalid service worker'' m)
          else
            let kept = subscriptions_by_registration m worker_registration_id
            in (True,
                m\<lparr>subscriptions_by_registration :=
                    (subscriptions_by_registration m)(worker_registration_id :=
                       filter (\<lambda>s. s \<notin> set subscriptions) kept)\<rparr>))"

text \<open>\<open>None\<close> is the answer without success, \<^verbatim>\<open>base::nullopt\<close> in the tests' proxy.\<close>

definition GetSubscriptions ::
  "string \<Rightarrow> int \<Rightarrow> CookieStoreManager
     \<Rightarrow> CookieChangeSubscription list option \<times> CookieStoreManager" where
  "GetSubscriptions service_origin worker_registration_id m =
     (let kept = subscriptions_by_registration m worker_registration_id
      in if kept = [] then (Some [], m)
         else if registration_origin m worker_registration_id \<noteq> Some service_origin
         then (None, ReportBadMessage ''Invalid service worker'' m)
         else (Some kept, m))"

text \<open>
  A run of calls of the two changing operations, each through the service of an origin,
  with the success each call reported.
\<close>

datatype subscription_call =
  AddCall string int "CookieChangeSubscription list"
  | RemoveCall string int "CookieChangeSubscription list"

fun perform_call ::
  "(string \<Rightarrow> string) \<Rightarrow> subscription_call \<Rightarrow> CookieStoreManager
     \<Rightarrow> bool \<times> CookieStoreManager" where
  "perform_call url_origin (AddCall service_origin rid subscriptions) m =
     AddSubscriptions url_origin service_origin rid subscriptions m"
| "perform_call url_origin (RemoveCall service_origin rid subscriptions) m =
     RemoveSubscriptions service_origin rid subscriptions m"

fun perform_calls ::
  "(string \<Rightarrow> string) \<Rightarrow> subscription_call list \<Rightarrow> CookieStoreManager
     \<Rightarrow> (subscription_call \<times> bool) list \<times> CookieStoreManager" where
  "perform_calls url_origin [] m = ([], m)"
| "perform_calls url_origin (c # calls) m =
     (let r = perform_call url_origin c m;
          rest = perform_calls url_origin calls (snd r)
      in ((c, fst r) # fst rest, snd rest))"

text \<open>
  The specification in its own words, on such a run: the subscriptions of a registration id that were
  added by a call that succeeded and not removed since by a call that succeeded, \<open>acc\<close>
  being those there before the run.
\<close>

fun added_and_not_removed ::
  "int \<Rightarrow> CookieChangeSubscription set \<Rightarrow> (subscription_call \<times> bool) list
     \<Rightarrow> CookieChangeSubscription set" where
  "added_and_not_removed rid acc [] = acc"
| "added_and_not_removed rid acc ((AddCall service_origin rid' subscriptions, success) # history) =
     added_and_not_removed rid
       (if success \<and> rid' = rid then acc \<union> set subscriptions else acc) history"
| "added_and_not_removed rid acc ((RemoveCall service_origin rid' subscriptions, success) # history) =
     added_and_not_removed rid
       (if success \<and> rid' = rid then acc - set subscriptions else acc) history"

text \<open>A manager that holds no subscription, for registrations of the given origins.\<close>

definition new_manager :: "(int \<rightharpoonup> string) \<Rightarrow> CookieStoreManager" where
  "new_manager origins =
     \<lparr>registration_origin = origins, subscriptions_by_registration = (\<lambda>rid. []),
      bad_messages = []\<rparr>"

section \<open>DevTools background services context\<close>

text \<open>
  \<^verbatim>\<open>DevToolsBackgroundServicesContextImpl\<close>: the implementation is the file
  \<^verbatim>\<open>unnamed/part_002\<close>, the header follows the tracing agent in
  \<^verbatim>\<open>browser/tracing/cros_tracing_agent.cc\<close>.
\<close>

subsection \<open>Time\<close>

text \<open>
  A \<^verbatim>\<open>base::Time\<close> is a count of microseconds since the Windows epoch in an
  \<^verbatim>\<open>int64_t\<close>; the null time \<^verbatim>\<open>base::Time()\<close> is the count 0. The class belongs to
  the base library: adding a \<^verbatim>\<open>TimeDelta\<close> saturates at the ends of the
  \<^verbatim>\<open>int64_t\<close> range, and \<^verbatim>\<open>FromDays\<close> multiplies by the microseconds of a day.
\<close>

type_synonym Time = int

definition int64_max :: int where
  "int64_max = 2 ^ 63 - 1"

definition int64_min :: int where
  "int64_min = - (2 ^ 63)"

definition kMicrosecondsPerDay :: int where
  "kMicrosecondsPerDay = 86400000000"

definition FromDays :: "int \<Rightarrow> int" where
  "FromDays days = days * kMicrosecondsPerDay"

definition Time_plus :: "Time \<Rightarrow> int \<Rightarrow> Time" where
  "Time_plus t delta =
     (let rv = delta + t in
      if int64_min \<le> rv \<and> rv \<le> int64_max then rv
      else if t < 0 then int64_min else int64_max)"

definition is_null :: "Time \<Rightarrow> bool" where
  "is_null t = (t = 0)"

subsection \<open>Services, events and keys\<close>

datatype DevToolsBackgroundService =
  kBackgroundFetch | kBackgroundSync | kPushMessaging | kNotifications | kPaymentHandler
  | kPeriodicBackgroundSync

text \<open>
  The enum \<^verbatim>\<open>devtools::proto::BackgroundService\<close> of the protocol buffer schema, with
  its tag numbers. Its last member \<^verbatim>\<open>COUNT\<close> is the size of the array of expiration
  times and names no service, so it is no constructor here.
\<close>

datatype BackgroundService =
  UNKNOWN | BACKGROUND_FETCH | BACKGROUND_SYNC | PUSH_MESSAGING | NOTIFICATIONS
  | PAYMENT_HANDLER | PERIODIC_BACKGROUND_SYNC

fun BackgroundService_number :: "BackgroundService \<Rightarrow> nat" where
  "BackgroundService_number UNKNOWN = 0"
| "BackgroundService_number BACKGROUND_FETCH = 1"
| "BackgroundService_number BACKGROUND_SYNC = 2"
| "BackgroundService_number PUSH_MESSAGING = 3"
| "BackgroundService_number NOTIFICATIONS = 4"
| "BackgroundService_number PAYMENT_HANDLER = 5"
| "BackgroundService_number PERIODIC_BACKGROUND_SYNC = 6"

fun ServiceToProtoEnum :: "DevToolsBackgroundService \<Rightarrow> BackgroundService" where
  "ServiceToProtoEnum kBackgroundFetch = BACKGROUND_FETCH"
| "ServiceToProtoEnum kBackgroundSync = BACKGROUND_SYNC"
| "ServiceToProtoEnum kPushMessaging = PUSH_MESSAGING"
| "ServiceToProtoEnum kNotifications = NOTIFICATIONS"
| "ServiceToProtoEnum kPaymentHandler = PAYMENT_HANDLER"
| "ServiceToProtoEnum kPeriodicBackgroundSync = PERIODIC_BACKGROUND_SYNC"

text \<open>\<^verbatim>\<open>base::NumberToString\<close> on a number that is not negative: its decimal digits.\<close>

definition digit_char :: "nat \<Rightarrow> char" where
  "digit_char d = ''0123456789'' ! d"

fun NumberToString :: "nat \<Rightarrow> string" where
  "NumberToString n =
     (if n < 10 then [digit_char n] else NumberToString (n div 10) @ [digit_char (n mod 10)])"

declare NumberToString.simps [simp del]

text \<open>\<^verbatim>\<open>base::StartsWith\<close>, case sensitive.\<close>

definition StartsWith :: "string \<Rightarrow> string \<Rightarrow> bool" where
  "StartsWith str search_for =
     (if length search_for > length str then False
      else take (length search_for) str = search_for)"

definition CreateEntryKeyPrefix :: "BackgroundService \<Rightarrow> string" where
  "CreateEntryKeyPrefix service =
     ''devtools_background_services_'' @ NumberToString (BackgroundService_number service)
       @ ''_''"

text \<open>The GUID is random: the caller of the model supplies the one generated.\<close>

definition CreateEntryKey :: "string \<Rightarrow> BackgroundService \<Rightarrow> string" where
  "CreateEntryKey guid service = CreateEntryKeyPrefix service @ guid"

text \<open>
  A \<^verbatim>\<open>url::Origin\<close> enters the code through \<^verbatim>\<open>GetURL()\<close> only; it is held as the
  spec of that URL.
\<close>

datatype Origin = Origin (GetURL_spec: string)

text \<open>
  The message \<^verbatim>\<open>devtools::proto::BackgroundServiceEvent\<close>. The registration id is an
  \<^verbatim>\<open>int64\<close> field set from an \<^verbatim>\<open>uint64_t\<close> argument: the same 64 bits.
\<close>

record BackgroundServiceEvent =
  timestamp :: int
  origin :: string
  service_worker_registration_id :: "64 word"
  background_service :: BackgroundService
  event_name :: string
  instance_id :: string
  event_metadata :: "string \<rightharpoonup> string"

subsection \<open>The service worker storage and the embedder\<close>

text \<open>
  \<^verbatim>\<open>blink::ServiceWorkerStatusCode\<close>: \<open>kStatusOk\<close> is its \<^verbatim>\<open>kOk\<close>, the other
  constructors are error codes.
\<close>

datatype ServiceWorkerStatusCode =
  kStatusOk | kErrorFailed | kErrorAbort | kErrorNotFound | kErrorStorageDisconnected

text \<open>
  The user data of the service worker registrations is kept by
  \<^verbatim>\<open>ServiceWorkerContextWrapper\<close>, a class of another directory. Here it is a list of
  entries, each a value of type \<open>'v\<close> (a serialized message) under a registration id and a
  key. The status of an operation is decided by that class (for a store, from the
  registration id and the URL of the origin passed with it) and is an argument: a store
  that does not report \<open>kStatusOk\<close> writes nothing, a write under a key that exists
  replaces its value.
\<close>

type_synonym 'v registration_user_data = "((64 word \<times> string) \<times> 'v) list"

definition StoreRegistrationUserData ::
  "ServiceWorkerStatusCode \<Rightarrow> 64 word \<Rightarrow> (string \<times> 'v) list
     \<Rightarrow> 'v registration_user_data \<Rightarrow> 'v registration_user_data" where
  "StoreRegistrationUserData status registration_id key_value_pairs store =
     (if status = kStatusOk
      then fold (\<lambda>kv. AList.update (registration_id, fst kv) (snd kv)) key_value_pairs store
      else store)"

definition GetUserDataForAllRegistrationsByKeyPrefix ::
  "string \<Rightarrow> 'v registration_user_data \<Rightarrow> (64 word \<times> 'v) list" where
  "GetUserDataForAllRegistrationsByKeyPrefix key_prefix store =
     map (\<lambda>e. (fst (fst e), snd e)) (filter (\<lambda>e. StartsWith (snd (fst e)) key_prefix) store)"

definition ClearUserDataForAllRegistrationsByKeyPrefix ::
  "ServiceWorkerStatusCode \<Rightarrow> string \<Rightarrow> 'v registration_user_data
     \<Rightarrow> 'v registration_user_data" where
  "ClearUserDataForAllRegistrationsByKeyPrefix status key_prefix store =
     (if status = kStatusOk
      then filter (\<lambda>e. \<not> StartsWith (snd (fst e)) key_prefix) store
      else store)"

subsection \<open>The context\<close>

datatype observer_call =
  OnEventReceived BackgroundServiceEvent
  | OnRecordingStateChanged bool BackgroundService

datatype thread_id = UI | CoreThread

text \<open>
  The members of the class and what its calls reach: the array \<^verbatim>\<open>expiration_times_\<close>,
  the observer list, the calls the observers received, the expiration times passed to the
  embedder (\<^verbatim>\<open>UpdateDevToolsBackgroundServiceExpiration\<close>), the user data of the
  service worker storage, and the histogram samples recorded.
\<close>

record 'v DevToolsBackgroundServicesContextImpl =
  expiration_times :: "BackgroundService \<Rightarrow> Time"
  observers :: "nat list"
  observer_calls :: "(nat \<times> observer_call) list"
  client_expirations :: "(BackgroundService \<times> Time) list"
  registration_user_data :: "'v registration_user_data"
  histograms :: "(string \<times> ServiceWorkerStatusCode) list"

definition AddObserver ::
  "nat \<Rightarrow> 'v DevToolsBackgroundServicesContextImpl \<Rightarrow> 'v DevToolsBackgroundServicesContextImpl"
  where
  "AddObserver observer s =
     (if observer \<in> set (observers s) then s else s\<lparr>observers := observers s @ [observer]\<rparr>)"

definition RemoveObserver ::
  "nat \<Rightarrow> 'v DevToolsBackgroundServicesContextImpl \<Rightarrow> 'v DevToolsBackgroundServicesContextImpl"
  where
  "RemoveObserver observer s = s\<lparr>observers := removeAll observer (observers s)\<rparr>"

definition notify_observers ::
  "observer_call \<Rightarrow> 'v DevToolsBackgroundServicesContextImpl
     \<Rightarrow> 'v DevToolsBackgroundServicesContextImpl" where
  "notify_observers c s =
     s\<lparr>observer_calls := observer_calls s @ map (\<lambda>observer. (observer, c)) (observers s)\<rparr>"

definition IsRecording_proto ::
  "'v DevToolsBackgroundServicesContextImpl \<Rightarrow> BackgroundService \<Rightarrow> bool" where
  "IsRecording_proto s service = (\<not> is_null (expiration_times s service))"

definition IsRecording ::
  "'v DevToolsBackgroundServicesContextImpl \<Rightarrow> DevToolsBackgroundService \<Rightarrow> bool" where
  "IsRecording s service = IsRecording_proto s (ServiceToProtoEnum service)"

text \<open>\<open>now\<close> is the reading of \<^verbatim>\<open>base::Time::Now()\<close> the call makes.\<close>

definition IsRecordingExpired ::
  "Time \<Rightarrow> 'v DevToolsBackgroundServicesContextImpl \<Rightarrow> BackgroundService \<Rightarrow> bool" where
  "IsRecordingExpired now s service =
     (let expiration_time = expiration_times s service
      in \<not> is_null expiration_time \<and> expiration_time < now)"

definition StartRecording ::
  "Time \<Rightarrow> BackgroundService \<Rightarrow> 'v DevToolsBackgroundServicesContextImpl
     \<Rightarrow> 'v DevToolsBackgroundServicesContextImpl" where
  "StartRecording now service s =
     (let expiration_time = Time_plus now (FromDays 3);
          s1 = s\<lparr>expiration_times := (expiration_times s)(service := expiration_time)\<rparr>;
          s2 = s1\<lparr>client_expirations := client_expirations s1 @ [(service, expiration_time)]\<rparr>
      in notify_observers (OnRecordingStateChanged True service) s2)"

definition StopRecording ::
  "BackgroundService \<Rightarrow> 'v DevToolsBackgroundServicesContextImpl
     \<Rightarrow> 'v DevToolsBackgroundServicesContextImpl" where
  "StopRecording service s =
     (let s1 = s\<lparr>expiration_times := (expiration_times s)(service := 0)\<rparr>;
          s2 = s1\<lparr>client_expirations := client_expirations s1 @ [(service, 0)]\<rparr>
      in notify_observers (OnRecordingStateChanged False service) s2)"

definition OnRecordingTimeExpired ::
  "Time \<Rightarrow> BackgroundService \<Rightarrow> 'v DevToolsBackgroundServicesContextImpl
     \<Rightarrow> 'v DevToolsBackgroundServicesContextImpl" where
  "OnRecordingTimeExpired now service s =
     (if IsRecordingExpired now s service then StopRecording service s else s)"

definition NotifyEventObservers ::
  "BackgroundServiceEvent \<Rightarrow> 'v DevToolsBackgroundServicesContextImpl
     \<Rightarrow> 'v DevToolsBackgroundServicesContextImpl" where
  "NotifyEventObservers event s = notify_observers (OnEventReceived event) s"

text \<open>
  The constructor reads the expiration times the embedder kept and sets to null every one
  that has passed. The array starts with null times.
\<close>

definition load_expiration ::
  "Time \<Rightarrow> BackgroundService \<times> Time \<Rightarrow> 'v DevToolsBackgroundServicesContextImpl
     \<Rightarrow> 'v DevToolsBackgroundServicesContextImpl" where
  "load_expiration now expiration_time s =
     (let s1 = s\<lparr>expiration_times :=
                 (expiration_times s)(fst expiration_time := snd expiration_time)\<rparr>
      in if IsRecordingExpired now s1 (fst expiration_time)
         then s1\<lparr>expiration_times := (expiration_times s1)(fst expiration_time := 0)\<rparr>
         else s1)"

definition DevToolsBackgroundServicesContextImpl_ctor ::
  "Time \<Rightarrow> (BackgroundService \<times> Time) list \<Rightarrow> 'v registration_user_data
     \<Rightarrow> 'v DevToolsBackgroundServicesContextImpl" where
  "DevToolsBackgroundServicesContextImpl_ctor now stored_expirations store =
     fold (load_expiration now) stored_expirations
       \<lparr>expiration_times = (\<lambda>service. 0), observers = [], observer_calls = [],
        client_expirations = [], registration_user_data = store, histograms = []\<rparr>"

subsection \<open>Logging and reading events\<close>

text \<open>
  A task bound for another thread (\<^verbatim>\<open>RunOrPostTaskOnThread\<close>, \<^verbatim>\<open>base::PostTask\<close>):
  the method to run there and its bound arguments.
\<close>

datatype task =
  LogBackgroundServiceEventOnCoreThread_task
    "64 word" Origin DevToolsBackgroundService string string "string \<rightharpoonup> string"
  | GetLoggedBackgroundServiceEventsOnCoreThread_task BackgroundService
  | ClearLoggedBackgroundServiceEventsOnCoreThread_task BackgroundService
  | NotifyEventObservers_task BackgroundServiceEvent
  | OnRecordingTimeExpired_task BackgroundService

text \<open>The three entry points of the UI thread only send the work to the core thread.\<close>

definition LogBackgroundServiceEvent ::
  "64 word \<Rightarrow> Origin \<Rightarrow> DevToolsBackgroundService \<Rightarrow> string \<Rightarrow> string
     \<Rightarrow> (string \<rightharpoonup> string) \<Rightarrow> thread_id \<times> task" where
  "LogBackgroundServiceEvent registration_id event_origin service name instance metadata =
     (CoreThread,
      LogBackgroundServiceEventOnCoreThread_task registration_id event_origin service name
        instance metadata)"

definition GetLoggedBackgroundServiceEvents :: "BackgroundService \<Rightarrow> thread_id \<times> task" where
  "GetLoggedBackgroundServiceEvents service =
     (CoreThread, GetLoggedBackgroundServiceEventsOnCoreThread_task service)"

definition ClearLoggedBackgroundServiceEvents :: "BackgroundService \<Rightarrow> thread_id \<times> task" where
  "ClearLoggedBackgroundServiceEvents service =
     (CoreThread, ClearLoggedBackgroundServiceEventsOnCoreThread_task service)"

text \<open>
  \<^verbatim>\<open>LogBackgroundServiceEventOnCoreThread\<close>. The clock is read twice, for the test of
  the expiration (\<open>now\<close>) and for the timestamp (\<open>stamp\<close>); \<open>guid\<close> is the GUID
  generated for the key, \<open>status\<close> the status of the store, \<open>serialize\<close> the
  \<^verbatim>\<open>SerializeAsString\<close> of the message. The result is the new state and the tasks sent
  to the UI thread.
\<close>

definition LogBackgroundServiceEventOnCoreThread ::
  "Time \<Rightarrow> Time \<Rightarrow> string \<Rightarrow> ServiceWorkerStatusCode \<Rightarrow> (BackgroundServiceEvent \<Rightarrow> 'v)
     \<Rightarrow> 64 word \<Rightarrow> Origin \<Rightarrow> DevToolsBackgroundService \<Rightarrow> string \<Rightarrow> string
     \<Rightarrow> (string \<rightharpoonup> string)
     \<Rightarrow> 'v DevToolsBackgroundServicesContextImpl
     \<Rightarrow> 'v DevToolsBackgroundServicesContextImpl \<times> (thread_id \<times> task) list" where
  "LogBackgroundServiceEventOnCoreThread now stamp guid status serialize
       registration_id event_origin service name instance metadata s =
     (if \<not> IsRecording s service then (s, [])
      else if IsRecordingExpired now s (ServiceToProtoEnum service)
      then (s, [(UI, OnRecordingTimeExpired_task (ServiceToProtoEnum service))])
      else
        let event =
              \<lparr>timestamp = stamp,
               origin = GetURL_spec event_origin,
               service_worker_registration_id = registration_id,
               background_service = ServiceToProtoEnum service,
               event_name = name,
               instance_id = instance,
               event_metadata = Map.empty ++ metadata\<rparr>;
            s1 = s\<lparr>registration_user_data :=
                   StoreRegistrationUserData status registration_id
                     [(CreateEntryKey guid (background_service event), serialize event)]
                     (registration_user_data s)\<rparr>;
            s2 = s1\<lparr>histograms :=
                   histograms s1 @ [(''DevTools.BackgroundService.LogEvent'', status)]\<rparr>
        in (s2, [(UI, NotifyEventObservers_task event)]))"

text \<open>
  \<^verbatim>\<open>DidGetUserData\<close>. The loop over the entries stops at the first one that does not
  parse; \<open>parse\<close> is \<^verbatim>\<open>ParseFromString\<close>, \<open>None\<close> when it returns false.
\<close>

fun parse_events ::
  "('v \<Rightarrow> BackgroundServiceEvent option) \<Rightarrow> (64 word \<times> 'v) list
     \<Rightarrow> BackgroundServiceEvent list \<Rightarrow> BackgroundServiceEvent list option" where
  "parse_events parse [] events = Some events"
| "parse_events parse (data # rest) events =
     (case parse (snd data) of
        None \<Rightarrow> None
      | Some event \<Rightarrow> parse_events parse rest (events @ [event]))"

text \<open>
  On an error the callback is run at once, where \<^verbatim>\<open>DidGetUserData\<close> runs; otherwise
  it is posted to the UI thread with the events sorted. \<^verbatim>\<open>std::sort\<close> with the
  comparison of the timestamps is a sort by the key \<open>timestamp\<close>; it promises no order
  between events of one timestamp, and \<open>sort_key\<close> keeps them in the order read.
\<close>

datatype callback_delivery =
  RunOnCoreThread (delivered_events: "BackgroundServiceEvent list")
  | PostedToUI (delivered_events: "BackgroundServiceEvent list")

definition DidGetUserData ::
  "('v \<Rightarrow> BackgroundServiceEvent option) \<Rightarrow> (64 word \<times> 'v) list \<Rightarrow> ServiceWorkerStatusCode
     \<Rightarrow> 'v DevToolsBackgroundServicesContextImpl
     \<Rightarrow> 'v DevToolsBackgroundServicesContextImpl \<times> callback_delivery" where
  "DidGetUserData parse data status s =
     (let s1 = s\<lparr>histograms :=
                 histograms s @ [(''DevTools.BackgroundService.GetEvents'', status)]\<rparr>
      in if status \<noteq> kStatusOk then (s1, RunOnCoreThread [])
         else
           (case parse_events parse data [] of
              None \<Rightarrow> (s1, RunOnCoreThread [])
            | Some events \<Rightarrow> (s1, PostedToUI (sort_key timestamp events))))"

text \<open>
  The storage answers the read with the entries under the prefix and a status; with a
  status that is not \<open>kStatusOk\<close> it passes no entries.
\<close>

definition GetLoggedBackgroundServiceEventsOnCoreThread ::
  "('v \<Rightarrow> BackgroundServiceEvent option) \<Rightarrow> ServiceWorkerStatusCode \<Rightarrow> BackgroundService
     \<Rightarrow> 'v DevToolsBackgroundServicesContextImpl
     \<Rightarrow> 'v DevToolsBackgroundServicesContextImpl \<times> callback_delivery" where
  "GetLoggedBackgroundServiceEventsOnCoreThread parse status service s =
     DidGetUserData parse
       (if status = kStatusOk
        then GetUserDataForAllRegistrationsByKeyPrefix (CreateEntryKeyPrefix service)
               (registration_user_data s)
        else [])
       status s"

definition ClearLoggedBackgroundServiceEventsOnCoreThread ::
  "ServiceWorkerStatusCode \<Rightarrow> BackgroundService \<Rightarrow> 'v DevToolsBackgroundServicesContextImpl
     \<Rightarrow> 'v DevToolsBackgroundServicesContextImpl" where
  "ClearLoggedBackgroundServiceEventsOnCoreThread status service s =
     (let s1 = s\<lparr>registration_user_data :=
                 ClearUserDataForAllRegistrationsByKeyPrefix status
                   (CreateEntryKeyPrefix service) (registration_user_data s)\<rparr>
      in s1\<lparr>histograms :=
             histograms s1 @ [(''DevTools.BackgroundService.ClearEvents'', status)]\<rparr>)"

text \<open>
  Running a task where it was sent. The arguments before the task are what the run takes
  from outside: the two readings of the clock, the GUID, the status the storage reports,
  and the two directions of the message's serialization. The result is the new state, the
  tasks sent on, and the events handed to the callback, if the task has one.
\<close>

definition run_task ::
  "Time \<Rightarrow> Time \<Rightarrow> string \<Rightarrow> ServiceWorkerStatusCode \<Rightarrow> (BackgroundServiceEvent \<Rightarrow> 'v)
     \<Rightarrow> ('v \<Rightarrow> BackgroundServiceEvent option) \<Rightarrow> task
     \<Rightarrow> 'v DevToolsBackgroundServicesContextImpl
     \<Rightarrow> 'v DevToolsBackgroundServicesContextImpl \<times> (thread_id \<times> task) list
         \<times> callback_delivery option" where
  "run_task now stamp guid status serialize parse t s =
     (case t of
        LogBackgroundServiceEventOnCoreThread_task registration_id event_origin service name
            instance metadata \<Rightarrow>
          (let r = LogBackgroundServiceEventOnCoreThread now stamp guid status serialize
                     registration_id event_origin service name instance metadata s
           in (fst r, snd r, None))
      | GetLoggedBackgroundServiceEventsOnCoreThread_task service \<Rightarrow>
          (let r = GetLoggedBackgroundServiceEventsOnCoreThread parse status service s
           in (fst r, [], Some (snd r)))
      | ClearLoggedBackgroundServiceEventsOnCoreThread_task service \<Rightarrow>
          (ClearLoggedBackgroundServiceEventsOnCoreThread status service s, [], None)
      | NotifyEventObservers_task event \<Rightarrow> (NotifyEventObservers event s, [], None)
      | OnRecordingTimeExpired_task service \<Rightarrow>
          (OnRecordingTimeExpired now service s, [], None))"

section \<open>Web test helpers: rewriting URLs\<close>

text \<open>
  \<^verbatim>\<open>blink_test_helpers.cc\<close>, which follows the dispatcher host in
  \<^verbatim>\<open>browser/indexed_db/indexed_db_dispatcher_host.cc\<close>. What the functions take from
  the platform is gathered in a record: the two directories \<^verbatim>\<open>base::PathService\<close> is
  asked for (\<open>None\<close> when \<^verbatim>\<open>Get\<close> fails), \<^verbatim>\<open>GetBuildDirectory\<close> being the
  executable's directory or, for a bundled application on macOS, the directory of the outer
  bundle; the operations of \<^verbatim>\<open>base::FilePath\<close> on paths written as UTF-8 strings; the
  parser of \<^verbatim>\<open>GURL\<close> and the spec of a parsed URL; and whether the build is for
  Windows. \<open>'u\<close> is the type of parsed URLs.
\<close>

record 'u platform =
  DIR_SOURCE_ROOT :: "string option"
  build_directory :: "string option"
  Append :: "string \<Rightarrow> string \<Rightarrow> string"
  AppendASCII :: "string \<Rightarrow> string \<Rightarrow> string"
  FilePathToFileURL :: "string \<Rightarrow> 'u"
  GURL :: "string \<Rightarrow> 'u"
  possibly_invalid_spec :: "'u \<Rightarrow> string"
  OS_WIN :: bool

text \<open>
  A \<^verbatim>\<open>WebURL\<close> is the empty \<^verbatim>\<open>WebURL()\<close> or made from a parsed URL; it is empty when
  its string is.
\<close>

datatype 'u WebURL = WebURL_empty | WebURL 'u

definition IsEmpty :: "'u platform \<Rightarrow> 'u WebURL \<Rightarrow> bool" where
  "IsEmpty env w =
     (case w of WebURL_empty \<Rightarrow> True | WebURL u \<Rightarrow> possibly_invalid_spec env u = [])"

text \<open>
  A \<^verbatim>\<open>base::StringPiece\<close> is a pointer into a buffer of characters and a size: here
  the buffer, the index its \<^verbatim>\<open>data()\<close> points at, and the size. The characters of the
  piece are those of the buffer from the index on, as many as the size says.
  \<^verbatim>\<open>substr\<close> with a position moves the pointer, by the size at most.
  The piece that a \<^verbatim>\<open>std::string\<close> or a literal converts to views the whole of its
  characters, which a NUL character follows in the buffer.
\<close>

record StringPiece =
  piece_buffer :: string
  piece_data :: nat
  piece_size :: nat

definition piece_chars :: "StringPiece \<Rightarrow> string" where
  "piece_chars p = take (piece_size p) (drop (piece_data p) (piece_buffer p))"

definition substr :: "StringPiece \<Rightarrow> nat \<Rightarrow> StringPiece" where
  "substr p pos =
     (let n = min pos (piece_size p)
      in p\<lparr>piece_data := piece_data p + n, piece_size := piece_size p - n\<rparr>)"

definition StringPiece_of :: "string \<Rightarrow> StringPiece" where
  "StringPiece_of str =
     \<lparr>piece_buffer = str @ [CHR 0x00], piece_data = 0, piece_size = length str\<rparr>"

text \<open>
  What ends a run: a \<^verbatim>\<open>CHECK\<close> that fails ends the process, and a read that leaves
  the buffer has no defined result.
\<close>

datatype failure = CHECK_failed | read_past_buffer

text \<open>
  \<^verbatim>\<open>std::string::append\<close> with the pointer \<^verbatim>\<open>data()\<close> of a piece takes a C string:
  it appends the characters of the buffer from the pointer up to the first NUL character,
  whatever the size of the piece is. With no NUL character in the buffer from there on,
  the read leaves the buffer.
\<close>

definition append_data :: "string \<Rightarrow> StringPiece \<Rightarrow> failure + string" where
  "append_data str p =
     (let from_data = drop (piece_data p) (piece_buffer p)
      in if CHR 0x00 \<in> set from_data
         then Inr (str @ takeWhile (\<lambda>c. c \<noteq> CHR 0x00) from_data)
         else Inl read_past_buffer)"

text \<open>
  \<^verbatim>\<open>GetWebTestsFilePath\<close> keeps the path in a function-local static, empty at first:
  \<^verbatim>\<open>base::PathService\<close> is asked only while it is empty. The static is the argument
  \<open>path\<close>; the result is the path returned and the static afterwards.
\<close>

definition GetWebTestsFilePath :: "'u platform \<Rightarrow> string \<Rightarrow> failure + string \<times> string" where
  "GetWebTestsFilePath env path =
     (if path = [] then
        (case DIR_SOURCE_ROOT env of
           None \<Rightarrow> Inl CHECK_failed
         | Some root_path \<Rightarrow>
             let path1 = Append env root_path ''third_party/blink/web_tests/''
             in Inr (path1, path1))
      else Inr (path, path))"

definition GetBuildDirectory :: "'u platform \<Rightarrow> failure + string" where
  "GetBuildDirectory env =
     (case build_directory env of None \<Rightarrow> Inl CHECK_failed | Some result \<Rightarrow> Inr result)"

text \<open>\<^verbatim>\<open>StringPiece::find\<close> compared with \<^verbatim>\<open>npos\<close>: does the piece occur in the string.\<close>

fun contains_piece :: "string \<Rightarrow> string \<Rightarrow> bool" where
  "contains_piece [] piece = (piece = [])"
| "contains_piece (c # cs) piece = (StartsWith (c # cs) piece \<or> contains_piece cs piece)"

definition kFileScheme :: string where
  "kFileScheme = ''file:///''"

definition kGenPrefix :: string where
  "kGenPrefix = ''file:///gen/''"

definition kPrefix :: string where
  "kPrefix = ''file:///tmp/web_tests/''"

text \<open>
  The two rewriting functions take the static of \<^verbatim>\<open>GetWebTestsFilePath\<close> and return it
  with their result.
\<close>

definition RewriteAbsolutePathInCsswgTest ::
  "'u platform \<Rightarrow> string \<Rightarrow> StringPiece \<Rightarrow> failure + 'u WebURL \<times> string" where
  "RewriteAbsolutePathInCsswgTest env path utf8_url =
     (if \<not> StartsWith (piece_chars utf8_url) kFileScheme then Inr (WebURL_empty, path)
      else if contains_piece (piece_chars utf8_url) ''/web_tests/'' then Inr (WebURL_empty, path)
      else if OS_WIN env \<and> piece_size utf8_url \<le> length kFileScheme + 3
      then Inr (WebURL_empty, path)
      else
        let rest = (if OS_WIN env then substr utf8_url (length kFileScheme + 3)
                    else substr utf8_url (length kFileScheme))
        in (case GetWebTestsFilePath env path of
              Inl f \<Rightarrow> Inl f
            | Inr (web_tests, path1) \<Rightarrow>
                Inr (WebURL (FilePathToFileURL env
                       (AppendASCII env web_tests (piece_chars rest))), path1)))"

definition RewriteWebTestsURL ::
  "'u platform \<Rightarrow> string \<Rightarrow> StringPiece \<Rightarrow> bool \<Rightarrow> failure + 'u WebURL \<times> string" where
  "RewriteWebTestsURL env path utf8_url is_wpt_mode =
     (if is_wpt_mode then
        (case RewriteAbsolutePathInCsswgTest env path utf8_url of
           Inl f \<Rightarrow> Inl f
         | Inr (rewritten_url, path1) \<Rightarrow>
             if \<not> IsEmpty env rewritten_url then Inr (rewritten_url, path1)
             else Inr (WebURL (GURL env (piece_chars utf8_url)), path1))
      else if StartsWith (piece_chars utf8_url) kGenPrefix then
        (case GetBuildDirectory env of
           Inl f \<Rightarrow> Inl f
         | Inr build \<Rightarrow>
             let gen_directory_path = Append env build ''gen/''
             in (case append_data (''file://'' @ gen_directory_path)
                        (substr utf8_url (length kGenPrefix)) of
                   Inl f \<Rightarrow> Inl f
                 | Inr new_url \<Rightarrow> Inr (WebURL (GURL env new_url), path)))
      else if \<not> StartsWith (piece_chars utf8_url) kPrefix
      then Inr (WebURL (GURL env (piece_chars utf8_url)), path)
      else
        (case GetWebTestsFilePath env path of
           Inl f \<Rightarrow> Inl f
         | Inr (web_tests, path1) \<Rightarrow>
             (case append_data (''file://'' @ web_tests)
                     (substr utf8_url (length kPrefix)) of
                Inl f \<Rightarrow> Inl f
              | Inr new_url \<Rightarrow> Inr (WebURL (GURL env new_url), path1))))"

section \<open>Example inputs\<close>

text \<open>
  Concrete inputs on which the theorems below are run. The stored entries are strings;
  \<open>''e9''\<close> and \<open>''e5''\<close> parse to events of timestamp 9 and 5, nothing else parses.
\<close>

definition example_event :: "int \<Rightarrow> BackgroundServiceEvent" where
  "example_event t =
     \<lparr>timestamp = t, origin = ''https://example.com/'',
      service_worker_registration_id = 7, background_service = BACKGROUND_FETCH,
      event_name = ''name'', instance_id = ''id'', event_metadata = Map.empty\<rparr>"

definition example_parse :: "string \<Rightarrow> BackgroundServiceEvent option" where
  "example_parse v =
     (if v = ''e9'' then Some (example_event 9)
      else if v = ''e5'' then Some (example_event 5)
      else None)"

text \<open>
  A context whose entries hold the message itself, created at time 0 with nothing stored,
  and the same context after recording of Background Fetch was started at time 1000.
\<close>

definition example_context ::
  "BackgroundServiceEvent DevToolsBackgroundServicesContextImpl" where
  "example_context = DevToolsBackgroundServicesContextImpl_ctor 0 [] []"

definition recording_context ::
  "BackgroundServiceEvent DevToolsBackgroundServicesContextImpl" where
  "recording_context = StartRecording 1000 BACKGROUND_FETCH example_context"

text \<open>
  A Push Messaging event of registration 8 with one pair of metadata, and a context that
  holds one Background Fetch event and in which recording of Push Messaging was started at
  time 1500.
\<close>

definition push_event :: "int \<Rightarrow> BackgroundServiceEvent" where
  "push_event t =
     \<lparr>timestamp = t, origin = ''https://example.com/'',
      service_worker_registration_id = 8, background_service = PUSH_MESSAGING,
      event_name = ''push'', instance_id = ''p1'', event_metadata = [''k'' \<mapsto> ''v'']\<rparr>"

definition push_context ::
  "BackgroundServiceEvent DevToolsBackgroundServicesContextImpl" where
  "push_context =
     StartRecording 1500 PUSH_MESSAGING
       (DevToolsBackgroundServicesContextImpl_ctor 0 []
          [((7, CreateEntryKey ''guid'' BACKGROUND_FETCH), example_event 2001)])"

text \<open>
  A platform for the URL rewriting: a checkout in \<open>/src\<close> built in
  \<open>/src/out/Default\<close>, paths joined with one slash, URLs held as their strings.
\<close>

definition example_append :: "string \<Rightarrow> string \<Rightarrow> string" where
  "example_append base component =
     (if base \<noteq> [] \<and> last base = CHR ''/'' then base @ component
      else base @ ''/'' @ component)"

definition example_platform :: "string platform" where
  "example_platform =
     \<lparr>DIR_SOURCE_ROOT = Some ''/src'',
      build_directory = Some ''/src/out/Default'',
      Append = example_append,
      AppendASCII = example_append,
      FilePathToFileURL = (\<lambda>path. ''file://'' @ path),
      GURL = (\<lambda>str. str),
      possibly_invalid_spec = (\<lambda>u. u),
      OS_WIN = False\<rparr>"

text \<open>
  A host that has bound nothing yet, and a blob of 3 bytes kept in an IndexedDB blob file,
  with no remote of its own.
\<close>

definition example_host :: "string IndexedDBDispatcherHost" where
  "example_host =
     \<lparr>file_reader_map = Map.empty, pipes_created = 0, guids_generated = 0,
      outside_calls = []\<rparr>"

definition example_blob :: IndexedDBExternalObject where
  "example_blob =
     \<lparr>object_type = kBlob, is_remote_valid = False, uuid = [], blob_size = 3,
      blob_type = [], last_modified = 1000,
      indexed_db_file_path = ''/idb/https_example.com_0.indexeddb.blob/1/00/3'',
      release_callback = 0, is_native_file_system_remote_valid = False,
      native_file_system_token = []\<rparr>"

text \<open>
  The setting of the cookie store tests: the origin of a URL under one of the two sites,
  the registration 1 of a worker of \<open>https://example.com\<close>, and the subscription of the
  test \<^verbatim>\<open>AddSubscriptions_OneSubscription\<close>.
\<close>

definition example_url_origin :: "string \<Rightarrow> string" where
  "example_url_origin u =
     (if StartsWith u ''https://example.com/'' then ''https://example.com''
      else if StartsWith u ''https://google.com/'' then ''https://google.com''
      else u)"

definition example_manager :: CookieStoreManager where
  "example_manager = new_manager [1 \<mapsto> ''https://example.com'']"

text \<open>
  The setting of the tests with two workers: registration 1 of \<open>https://example.com\<close>
  and registration 2 of \<open>https://google.com\<close>; and a subscription as the tests build
  them, from a name, a match type and a URL.
\<close>

definition two_site_manager :: CookieStoreManager where
  "two_site_manager =
     new_manager [1 \<mapsto> ''https://example.com'', 2 \<mapsto> ''https://google.com'']"

definition subscription :: "string \<Rightarrow> CookieMatchType \<Rightarrow> string \<Rightarrow> CookieChangeSubscription"
  where
  "subscription n t u =
     \<lparr>subscription_name = n, subscription_match_type = t, subscription_url = u\<rparr>"

definition example_subscription :: CookieChangeSubscription where
  "example_subscription =
     \<lparr>subscription_name = ''cookie_name_prefix'', subscription_match_type = STARTS_WITH,
      subscription_url = ''https://example.com/a''\<rparr>"

text \<open>
  For the blob readers: a second blob, of 5 bytes, kept in the same file as the example
  blob; a file of 9 bytes in a file of its own; and a blob that has a remote.
\<close>

definition second_blob :: IndexedDBExternalObject where
  "second_blob = example_blob\<lparr>blob_size := 5, release_callback := 1\<rparr>"

definition example_file :: IndexedDBExternalObject where
  "example_file =
     example_blob\<lparr>object_type := kFile, blob_size := 9,
       indexed_db_file_path := ''/idb/https_example.com_0.indexeddb.blob/1/00/4'',
       release_callback := 2\<rparr>"

definition remote_blob :: IndexedDBExternalObject where
  "remote_blob = example_blob\<lparr>is_remote_valid := True, uuid := ''remote-uuid''\<rparr>"

definition empty_blob_info :: IDBExternalObject where
  "empty_blob_info = blob_or_file \<lparr>blob = None, blob_uuid = []\<rparr>"

section \<open>Properties of the status translation\<close>

text \<open>The translation per code, used below.\<close>

lemma GetIndexedDBStatus_code:
  "GetIndexedDBStatus s =
     (case code s of
        kOk \<Rightarrow> IDB_OK
      | kNotFound \<Rightarrow> IDB_NotFound
      | kCorruption \<Rightarrow> IDB_Corruption
      | kNotSupported \<Rightarrow> IDB_NotSupported
      | kInvalidArgument \<Rightarrow> IDB_InvalidArgument
      | kIOError \<Rightarrow> IDB_IOError)"
  by (cases "code s")
     (simp_all add: GetIndexedDBStatus_def ok_def IsNotFound_def IsCorruption_def
        IsNotSupportedError_def IsInvalidArgument_def)

text \<open>
  C7. \<^verbatim>\<open>GetIndexedDBStatus\<close> is defined on every LevelDB status and sends ok to OK,
  not-found to NotFound, corruption to Corruption, not-supported to NotSupported,
  invalid-argument to InvalidArgument and every status that is none of these to IOError;
  whatever status the factory reports to the bound callback, both
  \<^verbatim>\<open>AbortTransactionsAndCompactDatabase\<close> and \<^verbatim>\<open>AbortTransactionsForDatabase\<close>
  run the Mojo callback on exactly the translation of that status.
\<close>

theorem C7_status_translation:
  "GetIndexedDBStatus s =
     (case code s of
        kOk \<Rightarrow> IDB_OK
      | kNotFound \<Rightarrow> IDB_NotFound
      | kCorruption \<Rightarrow> IDB_Corruption
      | kNotSupported \<Rightarrow> IDB_NotSupported
      | kInvalidArgument \<Rightarrow> IDB_InvalidArgument
      | kIOError \<Rightarrow> IDB_IOError)
   \<and> GetIndexedDBStatus \<lparr>code = kOk, msg = m\<rparr> = IDB_OK
   \<and> GetIndexedDBStatus \<lparr>code = kNotFound, msg = m\<rparr> = IDB_NotFound
   \<and> GetIndexedDBStatus \<lparr>code = kCorruption, msg = m\<rparr> = IDB_Corruption
   \<and> GetIndexedDBStatus \<lparr>code = kNotSupported, msg = m\<rparr> = IDB_NotSupported
   \<and> GetIndexedDBStatus \<lparr>code = kInvalidArgument, msg = m\<rparr> = IDB_InvalidArgument
   \<and> GetIndexedDBStatus \<lparr>code = kIOError, msg = m\<rparr> = IDB_IOError
   \<and> AbortTransactionsAndCompactDatabase (\<lambda>cb og. cb (result og)) current_origin mojo_callback
       = mojo_callback (GetIndexedDBStatus (result current_origin))
   \<and> AbortTransactionsForDatabase (\<lambda>cb og. cb (result og)) current_origin mojo_callback
       = mojo_callback (GetIndexedDBStatus (result current_origin))"
  by (simp add: GetIndexedDBStatus_code AbortTransactionsAndCompactDatabase_def
      AbortTransactionsForDatabase_def CallCompactionStatusCallbackOnIDBThread_def
      CallAbortStatusCallbackOnIDBThread_def ok_def IsNotFound_def IsCorruption_def
      IsNotSupportedError_def IsInvalidArgument_def split: leveldb_Code.split)

section \<open>Properties of the blob file readers\<close>

lemma registered_items_append:
  "registered_items (xs @ ys) = registered_items xs @ registered_items ys"
  by (induction xs rule: registered_items.induct) simp_all

lemma CreateExternalObject_registers:
  assumes "CreateExternalObject G U A og b m host = Inr (m', host')"
  shows "\<exists>new. registered_items (outside_calls host')
           = registered_items (outside_calls host) @ new
         \<and> (\<forall>item\<in>set new. item_type item = kIndexedDB \<and> side_data_size item = 0)"
  using assms
  by (auto simp: CreateExternalObject_def Let_def BindFileReader_def registered_items_append
      split: if_splits IDBExternalObject.splits option.splits)

lemma loop_registers:
  "CreateExternalObjects_loop G U A og objects mojo_objects host = Inr (out, host') \<Longrightarrow>
   \<exists>new. registered_items (outside_calls host')
           = registered_items (outside_calls host) @ new
         \<and> (\<forall>item\<in>set new. item_type item = kIndexedDB \<and> side_data_size item = 0)"
proof (induction G U A og objects mojo_objects host arbitrary: out host'
    rule: CreateExternalObjects_loop.induct)
  case (1 G U A og blob_info objects mojo_object mojo_objects host)
  from "1.prems" obtain m1 h1 outs where
    step: "CreateExternalObject G U A og blob_info mojo_object host = Inr (m1, h1)"
    and rest: "CreateExternalObjects_loop G U A og objects mojo_objects h1 = Inr (outs, host')"
    by (auto split: sum.splits prod.splits)
  from CreateExternalObject_registers [OF step] obtain new1 where
    n1: "registered_items (outside_calls h1) = registered_items (outside_calls host) @ new1"
      "\<forall>item\<in>set new1. item_type item = kIndexedDB \<and> side_data_size item = 0"
    by blast
  from "1.IH" [OF step refl rest] obtain new2 where
    n2: "registered_items (outside_calls host') = registered_items (outside_calls h1) @ new2"
      "\<forall>item\<in>set new2. item_type item = kIndexedDB \<and> side_data_size item = 0"
    by blast
  show ?case
    by (rule exI [of _ "new1 @ new2"]) (use n1 n2 in auto)
qed simp_all

lemma CreateExternalObject_blob:
  assumes "object_type b = kBlob \<or> object_type b = kFile" and "\<not> is_remote_valid b"
  shows "\<exists>m' host'.
      CreateExternalObject G U A og b (blob_or_file info) host = Inr (m', host')
      \<and> outside_calls host' = outside_calls host
            @ [RegisterFromDataItem (pipes_created host) (G (guids_generated host))
                 \<lparr>item_type = kIndexedDB, item_size = blob_size b, side_data_size = 0,
                  content_type = U (blob_type b), item_reader = Suc (pipes_created host)\<rparr>]
      \<and> (\<exists>r. file_reader_map host' (indexed_db_file_path b) = Some r
              \<and> Suc (pipes_created host) \<in> set (receivers r))"
  using assms
  by (auto simp: CreateExternalObject_def Let_def BindFileReader_def AddReader_def
      split: option.splits)

lemma CreateExternalObject_keeps_bound:
  assumes "CreateExternalObject G U A og b m host = Inr (m', host')"
    and "bound_reader host path pipe"
  shows "bound_reader host' path pipe"
  using assms
  by (auto simp: CreateExternalObject_def Let_def BindFileReader_def AddReader_def
      bound_reader_def split: if_splits IDBExternalObject.splits option.splits)

lemma loop_keeps_bound:
  "CreateExternalObjects_loop G U A og objects mojo_objects host = Inr (out, host') \<Longrightarrow>
   bound_reader host path pipe \<Longrightarrow> bound_reader host' path pipe"
proof (induction G U A og objects mojo_objects host arbitrary: out host'
    rule: CreateExternalObjects_loop.induct)
  case (1 G U A og blob_info objects mojo_object mojo_objects host)
  from "1.prems"(1) obtain m1 h1 outs where
    step: "CreateExternalObject G U A og blob_info mojo_object host = Inr (m1, h1)"
    and rest: "CreateExternalObjects_loop G U A og objects mojo_objects h1 = Inr (outs, host')"
    by (auto split: sum.splits prod.splits)
  from CreateExternalObject_keeps_bound [OF step "1.prems"(2)]
  have "bound_reader h1 path pipe" .
  with "1.IH" [OF step refl rest] show ?case .
qed simp_all

lemma item_serves_kept:
  "CreateExternalObjects_loop G U A og objects mojo_objects host = Inr (out, host') \<Longrightarrow>
   item_serves U host item b \<Longrightarrow> item_serves U host' item b"
  by (auto simp: item_serves_def dest: loop_keeps_bound)

lemma CreateExternalObject_item:
  assumes "CreateExternalObject G U A og b m host = Inr (m', host')"
  shows "\<exists>new. registered_items (outside_calls host')
           = registered_items (outside_calls host) @ new
         \<and> list_all2 (item_serves U host') new (filter needs_file_reader [b])"
  using assms
  by (auto simp: CreateExternalObject_def Let_def BindFileReader_def AddReader_def
      registered_items_append needs_file_reader_def item_serves_def bound_reader_def
      split: if_splits IDBExternalObject.splits option.splits)

lemma loop_items:
  "CreateExternalObjects_loop G U A og objects mojo_objects host = Inr (out, host') \<Longrightarrow>
   length objects = length mojo_objects \<Longrightarrow>
   \<exists>new. registered_items (outside_calls host')
           = registered_items (outside_calls host) @ new
         \<and> list_all2 (item_serves U host') new (filter needs_file_reader objects)"
proof (induction G U A og objects mojo_objects host arbitrary: out host'
    rule: CreateExternalObjects_loop.induct)
  case (1 G U A og blob_info objects mojo_object mojo_objects host)
  from "1.prems"(1) obtain m1 h1 outs where
    step: "CreateExternalObject G U A og blob_info mojo_object host = Inr (m1, h1)"
    and rest: "CreateExternalObjects_loop G U A og objects mojo_objects h1 = Inr (outs, host')"
    by (auto split: sum.splits prod.splits)
  from CreateExternalObject_item [OF step] obtain new1 where
    n1: "registered_items (outside_calls h1) = registered_items (outside_calls host) @ new1"
      "list_all2 (item_serves U h1) new1 (filter needs_file_reader [blob_info])"
    by blast
  from "1.prems"(2) have "length objects = length mojo_objects" by simp
  from "1.IH" [OF step refl rest this] obtain new2 where
    n2: "registered_items (outside_calls host') = registered_items (outside_calls h1) @ new2"
      "list_all2 (item_serves U host') new2 (filter needs_file_reader objects)"
    by blast
  have kept: "list_all2 (item_serves U host') new1 (filter needs_file_reader [blob_info])"
    using n1(2) item_serves_kept [OF rest]
    by (rule list_all2_mono)
  have split: "filter needs_file_reader (blob_info # objects)
      = filter needs_file_reader [blob_info] @ filter needs_file_reader objects"
    by simp
  have "list_all2 (item_serves U host') (new1 @ new2)
      (filter needs_file_reader (blob_info # objects))"
    unfolding split using kept n2(2) by (rule list_all2_appendI)
  with n1(1) n2(1) show ?case
    by (intro exI [of _ "new1 @ new2"]) simp
qed simp_all


lemma list_all2_witness:
  "list_all2 P xs ys \<Longrightarrow> x \<in> set xs \<Longrightarrow> \<exists>y\<in>set ys. P x y"
  by (induction rule: list_all2_induct) auto

lemma item_serves_type:
  "item_serves U host item b \<Longrightarrow>
   item_type item = kIndexedDB \<and> item_type item \<noteq> kCacheStorage \<and> side_data_size item = 0"
  by (simp add: item_serves_def)

text \<open>
  C5, as amended. The \<^verbatim>\<open>BlobDataItemReader\<close> implementation of the source,
  \<^verbatim>\<open>IndexedDBDataItemReader\<close>, serves the blobs of IndexedDB, not those of the cache
  storage. After a run of \<^verbatim>\<open>CreateAllExternalObjects\<close>, the data items it registered
  with the blob storage context are, in order, one for each object of the run that is a
  blob or file without a valid remote, and each has the type \<^verbatim>\<open>kIndexedDB\<close>, which
  is not \<^verbatim>\<open>kCacheStorage\<close>, side data of size 0, the size and content type of its
  object, and a reader pipe that at the end of the run is among the receivers of the reader
  the host keeps under the object's IndexedDB file path; every pipe bound to a reader
  before the run is still bound after it. One turn of the loop for such an object registers
  exactly that item and binds its pipe. \<^verbatim>\<open>ReadSideData\<close> answers
  \<^verbatim>\<open>ERR_NOT_IMPLEMENTED\<close> with no data.
\<close>

theorem C5_blob_items_are_indexed_db:
  "(CreateAllExternalObjects G U A og objects mojo_objects host = Inr (out, host') \<longrightarrow>
      (\<exists>new. registered_items (outside_calls host')
               = registered_items (outside_calls host) @ new
            \<and> list_all2 (item_serves U host') new (filter needs_file_reader objects)
            \<and> (\<forall>item\<in>set new. item_type item = kIndexedDB
                    \<and> item_type item \<noteq> kCacheStorage
                    \<and> side_data_size item = 0
                    \<and> (\<exists>blob_info\<in>set objects. needs_file_reader blob_info
                          \<and> item_size item = blob_size blob_info
                          \<and> content_type item = U (blob_type blob_info)
                          \<and> bound_reader host' (indexed_db_file_path blob_info)
                                (item_reader item))))
      \<and> (\<forall>path pipe. bound_reader host path pipe \<longrightarrow> bound_reader host' path pipe))
   \<and> ((object_type b = kBlob \<or> object_type b = kFile) \<and> \<not> is_remote_valid b \<longrightarrow>
        (\<exists>m' host1.
           CreateExternalObject G U A og b (blob_or_file info) host = Inr (m', host1)
           \<and> outside_calls host1 = outside_calls host
                 @ [RegisterFromDataItem (pipes_created host) (G (guids_generated host))
                      \<lparr>item_type = kIndexedDB, item_size = blob_size b, side_data_size = 0,
                       content_type = U (blob_type b),
                       item_reader = Suc (pipes_created host)\<rparr>]
           \<and> (\<exists>reader. file_reader_map host1 (indexed_db_file_path b) = Some reader
                   \<and> Suc (pipes_created host) \<in> set (receivers reader))))
   \<and> ReadSideData r = (ERR_NOT_IMPLEMENTED, [])"
proof -
  have run_level: "\<exists>new. registered_items (outside_calls host')
               = registered_items (outside_calls host) @ new
            \<and> list_all2 (item_serves U host') new (filter needs_file_reader objects)
            \<and> (\<forall>item\<in>set new. item_type item = kIndexedDB
                    \<and> item_type item \<noteq> kCacheStorage
                    \<and> side_data_size item = 0
                    \<and> (\<exists>blob_info\<in>set objects. needs_file_reader blob_info
                          \<and> item_size item = blob_size blob_info
                          \<and> content_type item = U (blob_type blob_info)
                          \<and> bound_reader host' (indexed_db_file_path blob_info)
                                (item_reader item)))"
    and kept: "\<forall>path pipe. bound_reader host path pipe \<longrightarrow> bound_reader host' path pipe"
    if run: "CreateAllExternalObjects G U A og objects mojo_objects host = Inr (out, host')"
  proof -
    from run have len: "length objects = length mojo_objects"
      by (simp add: CreateAllExternalObjects_def split: if_splits)
    have loop: "CreateExternalObjects_loop G U A og objects mojo_objects host
        = Inr (out, host')"
    proof (cases "objects = []")
      case True
      with run len show ?thesis
        by (simp add: CreateAllExternalObjects_def)
    next
      case False
      with run show ?thesis
        by (simp add: CreateAllExternalObjects_def split: if_splits)
    qed
    from loop_items [OF loop len] obtain new where
      new: "registered_items (outside_calls host')
          = registered_items (outside_calls host) @ new"
        "list_all2 (item_serves U host') new (filter needs_file_reader objects)"
      by blast
    have each: "item_type item = kIndexedDB \<and> item_type item \<noteq> kCacheStorage
        \<and> side_data_size item = 0
        \<and> (\<exists>blob_info\<in>set objects. needs_file_reader blob_info
              \<and> item_size item = blob_size blob_info
              \<and> content_type item = U (blob_type blob_info)
              \<and> bound_reader host' (indexed_db_file_path blob_info) (item_reader item))"
      if "item \<in> set new" for item
    proof -
      from list_all2_witness [OF new(2) that] obtain blob_info where
        b: "blob_info \<in> set (filter needs_file_reader objects)"
          "item_serves U host' item blob_info"
        by blast
      from b(1) have "blob_info \<in> set objects" "needs_file_reader blob_info"
        by simp_all
      with b(2) item_serves_type [OF b(2)] show ?thesis
        unfolding item_serves_def by blast
    qed
    from new each show "\<exists>new. registered_items (outside_calls host')
               = registered_items (outside_calls host) @ new
            \<and> list_all2 (item_serves U host') new (filter needs_file_reader objects)
            \<and> (\<forall>item\<in>set new. item_type item = kIndexedDB
                    \<and> item_type item \<noteq> kCacheStorage
                    \<and> side_data_size item = 0
                    \<and> (\<exists>blob_info\<in>set objects. needs_file_reader blob_info
                          \<and> item_size item = blob_size blob_info
                          \<and> content_type item = U (blob_type blob_info)
                          \<and> bound_reader host' (indexed_db_file_path blob_info)
                                (item_reader item)))"
      by blast
    show "\<forall>path pipe. bound_reader host path pipe \<longrightarrow> bound_reader host' path pipe"
      using loop_keeps_bound [OF loop] by blast
  qed
  show ?thesis
    apply (intro conjI impI)
    subgoal using run_level by blast
    subgoal using kept by blast
    subgoal using CreateExternalObject_blob [of b G U A og info host] by blast
    subgoal by (simp add: ReadSideData_def)
    done
qed

text \<open>
  C5 as it was stated fails: the one data item registered for the example blob is of type
  \<^verbatim>\<open>kIndexedDB\<close>, not of the cache storage's type.
\<close>

theorem C5_cache_storage_counterexample:
  "map item_type (registered_items (outside_calls (snd (projr
      (CreateAllExternalObjects (\<lambda>n. ''guid'') (\<lambda>w. ''text/plain'') False
         ''https://example.com'' [example_blob]
         [blob_or_file \<lparr>blob = None, blob_uuid = []\<rparr>] example_host)))))
     = [kIndexedDB]
   \<and> kIndexedDB \<noteq> kCacheStorage"
  by (simp add: CreateAllExternalObjects_def CreateExternalObject_def example_blob_def
      example_host_def BindFileReader_def Let_def)

text \<open>
  The amended statement on a run over four objects: two blobs in one file, a blob with a
  remote, and a file. Three items are registered, and their reader pipes 1, 4 and 6 are
  bound to the readers of the two files.
\<close>

lemma example_run_succeeds:
  "\<not> isl (CreateAllExternalObjects (\<lambda>n. ''guid'') (\<lambda>w. ''text/plain'') False
      ''https://example.com'' [example_blob, remote_blob, second_blob, example_file]
      [empty_blob_info, empty_blob_info, empty_blob_info, empty_blob_info] example_host)"
  by code_simp

lemma example_run_items:
  "registered_items (outside_calls (snd (projr
      (CreateAllExternalObjects (\<lambda>n. ''guid'') (\<lambda>w. ''text/plain'') False
         ''https://example.com'' [example_blob, remote_blob, second_blob, example_file]
         [empty_blob_info, empty_blob_info, empty_blob_info, empty_blob_info]
         example_host))))
   = [\<lparr>item_type = kIndexedDB, item_size = 3, side_data_size = 0,
       content_type = ''text/plain'', item_reader = 1\<rparr>,
      \<lparr>item_type = kIndexedDB, item_size = 5, side_data_size = 0,
       content_type = ''text/plain'', item_reader = 4\<rparr>,
      \<lparr>item_type = kIndexedDB, item_size = 9, side_data_size = 0,
       content_type = ''text/plain'', item_reader = 6\<rparr>]"
  by code_simp

theorem C5_blob_items_are_indexed_db_witness:
  "map item_type (registered_items (outside_calls (snd (projr
      (CreateAllExternalObjects (\<lambda>n. ''guid'') (\<lambda>w. ''text/plain'') False
         ''https://example.com'' [example_blob, remote_blob, second_blob, example_file]
         [empty_blob_info, empty_blob_info, empty_blob_info, empty_blob_info]
         example_host)))))
     = [kIndexedDB, kIndexedDB, kIndexedDB]
   \<and> bound_reader (snd (projr
      (CreateAllExternalObjects (\<lambda>n. ''guid'') (\<lambda>w. ''text/plain'') False
         ''https://example.com'' [example_blob, remote_blob, second_blob, example_file]
         [empty_blob_info, empty_blob_info, empty_blob_info, empty_blob_info]
         example_host)))
       ''/idb/https_example.com_0.indexeddb.blob/1/00/3'' 1
   \<and> bound_reader (snd (projr
      (CreateAllExternalObjects (\<lambda>n. ''guid'') (\<lambda>w. ''text/plain'') False
         ''https://example.com'' [example_blob, remote_blob, second_blob, example_file]
         [empty_blob_info, empty_blob_info, empty_blob_info, empty_blob_info]
         example_host)))
       ''/idb/https_example.com_0.indexeddb.blob/1/00/3'' 4
   \<and> bound_reader (snd (projr
      (CreateAllExternalObjects (\<lambda>n. ''guid'') (\<lambda>w. ''text/plain'') False
         ''https://example.com'' [example_blob, remote_blob, second_blob, example_file]
         [empty_blob_info, empty_blob_info, empty_blob_info, empty_blob_info]
         example_host)))
       ''/idb/https_example.com_0.indexeddb.blob/1/00/4'' 6
   \<and> (\<exists>m' host1 reader.
        CreateExternalObject (\<lambda>n. ''guid'') (\<lambda>w. ''text/plain'') False
          ''https://example.com'' example_blob
          (blob_or_file \<lparr>blob = None, blob_uuid = []\<rparr>) example_host = Inr (m', host1)
        \<and> outside_calls host1
            = [RegisterFromDataItem 0 ''guid''
                 \<lparr>item_type = kIndexedDB, item_size = 3, side_data_size = 0,
                  content_type = ''text/plain'', item_reader = 1\<rparr>]
        \<and> file_reader_map host1 ''/idb/https_example.com_0.indexeddb.blob/1/00/3''
            = Some reader
        \<and> 1 \<in> set (receivers reader))"
proof -
  let ?run = "CreateAllExternalObjects (\<lambda>n. ''guid'') (\<lambda>w. ''text/plain'') False
      ''https://example.com'' [example_blob, remote_blob, second_blob, example_file]
      [empty_blob_info, empty_blob_info, empty_blob_info, empty_blob_info] example_host"
  let ?host = "snd (projr ?run)"
  have before: "registered_items (outside_calls example_host) = []"
    by (simp add: example_host_def)
  have needing: "filter needs_file_reader
      [example_blob, remote_blob, second_blob, example_file]
      = [example_blob, second_blob, example_file]"
    by (simp add: needs_file_reader_def example_blob_def remote_blob_def second_blob_def
        example_file_def)
  have is_blob: "(object_type example_blob = kBlob \<or> object_type example_blob = kFile)
      \<and> \<not> is_remote_valid example_blob"
    by (simp add: example_blob_def)
  note t = C5_blob_items_are_indexed_db [where host = example_host and host' = ?host
      and out = "fst (projr ?run)"
      and G = "\<lambda>n. ''guid''" and U = "\<lambda>w. ''text/plain''" and A = False
      and og = "''https://example.com''"
      and objects = "[example_blob, remote_blob, second_blob, example_file]"
      and mojo_objects = "[empty_blob_info, empty_blob_info, empty_blob_info, empty_blob_info]"
      and b = example_blob and info = "\<lparr>blob = None, blob_uuid = []\<rparr>"]
  have example_run: "?run = Inr (fst (projr ?run), ?host)"
    using example_run_succeeds by (simp add: sum.collapse(2))
  from t example_run obtain new where
    new: "registered_items (outside_calls ?host)
        = registered_items (outside_calls example_host) @ new"
      "list_all2 (item_serves (\<lambda>w. ''text/plain'') ?host) new
         (filter needs_file_reader [example_blob, remote_blob, second_blob, example_file])"
    by blast
  from new(1) have "new = registered_items (outside_calls ?host)"
    by (simp add: before)
  with new(2) have served: "list_all2 (item_serves (\<lambda>w. ''text/plain'') ?host)
      [\<lparr>item_type = kIndexedDB, item_size = 3, side_data_size = 0,
       content_type = ''text/plain'', item_reader = 1\<rparr>,
      \<lparr>item_type = kIndexedDB, item_size = 5, side_data_size = 0,
       content_type = ''text/plain'', item_reader = 4\<rparr>,
      \<lparr>item_type = kIndexedDB, item_size = 9, side_data_size = 0,
       content_type = ''text/plain'', item_reader = 6\<rparr>]
      [example_blob, second_blob, example_file]"
    by (simp only: example_run_items needing)
  then have bound:
    "bound_reader ?host (indexed_db_file_path example_blob) 1"
    "bound_reader ?host (indexed_db_file_path second_blob) 4"
    "bound_reader ?host (indexed_db_file_path example_file) 6"
    by (simp_all add: item_serves_def)
  from t is_blob
  have step: "\<exists>m' host1 reader.
        CreateExternalObject (\<lambda>n. ''guid'') (\<lambda>w. ''text/plain'') False
          ''https://example.com'' example_blob
          (blob_or_file \<lparr>blob = None, blob_uuid = []\<rparr>) example_host = Inr (m', host1)
        \<and> outside_calls host1
            = [RegisterFromDataItem 0 ''guid''
                 \<lparr>item_type = kIndexedDB, item_size = 3, side_data_size = 0,
                  content_type = ''text/plain'', item_reader = 1\<rparr>]
        \<and> file_reader_map host1 ''/idb/https_example.com_0.indexeddb.blob/1/00/3''
            = Some reader
        \<and> 1 \<in> set (receivers reader)"
    by (simp add: example_host_def example_blob_def)
  have types: "map item_type (registered_items (outside_calls ?host))
      = [kIndexedDB, kIndexedDB, kIndexedDB]"
    using served by (simp add: example_run_items)
  from bound have paths:
    "bound_reader ?host ''/idb/https_example.com_0.indexeddb.blob/1/00/3'' 1"
    "bound_reader ?host ''/idb/https_example.com_0.indexeddb.blob/1/00/3'' 4"
    "bound_reader ?host ''/idb/https_example.com_0.indexeddb.blob/1/00/4'' 6"
    by (simp_all add: example_blob_def second_blob_def example_file_def)
  from types paths step show ?thesis by blast
qed

section \<open>Properties of the invalid network provider\<close>

text \<open>
  C8. The instance that \<^verbatim>\<open>CreateInvalidInstance\<close> returns has no context and no
  observer. On it, \<^verbatim>\<open>CreateURLLoader\<close> returns null for every request (whatever the
  render thread and the URL tests are) and changes nothing,
  \<^verbatim>\<open>GetControllerServiceWorkerMode\<close> returns \<^verbatim>\<open>kNoController\<close>,
  \<^verbatim>\<open>ControllerServiceWorkerID\<close> returns \<^verbatim>\<open>kInvalidServiceWorkerVersionId\<close>,
  \<^verbatim>\<open>TakePendingWorkerTimingReceiver\<close> returns the empty handle for every request id,
  and \<^verbatim>\<open>WillSendRequest\<close> and \<^verbatim>\<open>DispatchNetworkQuiet\<close> leave the request and the
  provider as they were.
\<close>

theorem C8_invalid_instance_inert:
  "provider_context CreateInvalidInstance = None
   \<and> provider_observer CreateInvalidInstance = None
   \<and> CreateURLLoader render_thread is_http can_access CreateInvalidInstance request handle
       = Inr (None, CreateInvalidInstance)
   \<and> GetControllerServiceWorkerMode CreateInvalidInstance = kNoController
   \<and> ControllerServiceWorkerID CreateInvalidInstance = kInvalidServiceWorkerVersionId
   \<and> TakePendingWorkerTimingReceiver CreateInvalidInstance request_id
       = (None, CreateInvalidInstance)
   \<and> WillSendRequest CreateInvalidInstance request = request
   \<and> DispatchNetworkQuiet CreateInvalidInstance = CreateInvalidInstance"
  by (simp add: CreateInvalidInstance_def ServiceWorkerNetworkProviderForFrame_ctor_def
      CreateURLLoader_def GetControllerServiceWorkerMode_def ControllerServiceWorkerID_def
      TakePendingWorkerTimingReceiver_def WillSendRequest_def DispatchNetworkQuiet_def
      split: option.split)

section \<open>Properties of the cookie store subscriptions\<close>

subsection \<open>The model on the scenarios of the unit test\<close>

text \<open>
  The manager is not among the sources, its unit test is. On the calls of the tests named,
  the model answers what the test expects: the success reported, the bad message, and the
  subscriptions read back.
\<close>

lemmas cookie_store_defs =
  AddSubscriptions_def RemoveSubscriptions_def GetSubscriptions_def ReportBadMessage_def
  new_manager_def two_site_manager_def subscription_def example_url_origin_def
  StartsWith_def Let_def

lemma test_NoSubscriptions:
  "fst (GetSubscriptions ''https://example.com'' 1 two_site_manager) = Some []"
  by (simp add: cookie_store_defs)

lemma test_AddSubscriptions_WrongScopeOrigin:
  "fst (AddSubscriptions example_url_origin ''https://example.com'' 1
          [subscription ''cookie'' STARTS_WITH ''https://google.com/a''] two_site_manager)
     = False
   \<and> bad_messages (snd (AddSubscriptions example_url_origin ''https://example.com'' 1
          [subscription ''cookie'' STARTS_WITH ''https://google.com/a''] two_site_manager))
     = [''Invalid subscription URL'']
   \<and> fst (GetSubscriptions ''https://example.com'' 1
          (snd (AddSubscriptions example_url_origin ''https://example.com'' 1
             [subscription ''cookie'' STARTS_WITH ''https://google.com/a''] two_site_manager)))
     = Some []"
  by (simp add: cookie_store_defs)

lemma test_AddSubscriptions_NonexistentRegistrationId:
  "AddSubscriptions example_url_origin ''https://example.com'' 101
      [subscription ''cookie_name_prefix'' STARTS_WITH ''https://example.com/a'']
      two_site_manager
     = (False, two_site_manager)"
  by (simp add: cookie_store_defs)

lemma test_AddSubscriptions_WrongRegistrationOrigin:
  "fst (AddSubscriptions example_url_origin ''https://example.com'' 2
          [subscription ''cookie'' STARTS_WITH ''https://google.com/a''] two_site_manager)
     = False
   \<and> bad_messages (snd (AddSubscriptions example_url_origin ''https://example.com'' 2
          [subscription ''cookie'' STARTS_WITH ''https://google.com/a''] two_site_manager))
     = [''Invalid service worker'']
   \<and> fst (GetSubscriptions ''https://google.com'' 2
          (snd (AddSubscriptions example_url_origin ''https://example.com'' 2
             [subscription ''cookie'' STARTS_WITH ''https://google.com/a''] two_site_manager)))
     = Some []"
  by (simp add: cookie_store_defs)

lemma test_AddSubscriptions_MultipleSubscriptions:
  "fst (GetSubscriptions ''https://example.com'' 1
     (snd (perform_calls example_url_origin
        [AddCall ''https://example.com'' 1
           [subscription ''name1'' STARTS_WITH ''https://example.com/a/1'',
            subscription ''name2'' EQUALS ''https://example.com/a/2''],
         AddCall ''https://example.com'' 1 [],
         AddCall ''https://example.com'' 1
           [subscription ''name3'' STARTS_WITH ''https://example.com/a/3'']]
        two_site_manager)))
   = Some [subscription ''name1'' STARTS_WITH ''https://example.com/a/1'',
           subscription ''name2'' EQUALS ''https://example.com/a/2'',
           subscription ''name3'' STARTS_WITH ''https://example.com/a/3'']"
  by (simp add: cookie_store_defs)

lemma test_RemoveSubscriptions_MultipleSubscriptionsLeft:
  "fst (GetSubscriptions ''https://example.com'' 1
     (snd (perform_calls example_url_origin
        [AddCall ''https://example.com'' 1
           [subscription ''name1'' STARTS_WITH ''https://example.com/a/1'',
            subscription ''name2'' EQUALS ''https://example.com/a/2'',
            subscription ''name3'' STARTS_WITH ''https://example.com/a/3''],
         RemoveCall ''https://example.com'' 1
           [subscription ''wrong_name3'' STARTS_WITH ''https://example.com/a/3'',
            subscription ''wrong_name1'' STARTS_WITH ''https://example.com/a/1'',
            subscription ''name2'' EQUALS ''https://example.com/a/2'']]
        two_site_manager)))
   = Some [subscription ''name1'' STARTS_WITH ''https://example.com/a/1'',
           subscription ''name3'' STARTS_WITH ''https://example.com/a/3'']"
  by (simp add: cookie_store_defs)

lemma test_RemoveSubscriptions_WrongRegistrationOrigin:
  "fst (perform_calls example_url_origin
        [AddCall ''https://example.com'' 1
           [subscription ''cookie_name_prefix'' STARTS_WITH ''https://example.com/a''],
         AddCall ''https://google.com'' 2
           [subscription ''cookie_name'' EQUALS ''https://google.com/a''],
         RemoveCall ''https://example.com'' 2
           [subscription ''cookie_name'' EQUALS ''https://google.com/a'']]
        two_site_manager)
   = [(AddCall ''https://example.com'' 1
           [subscription ''cookie_name_prefix'' STARTS_WITH ''https://example.com/a''], True),
      (AddCall ''https://google.com'' 2
           [subscription ''cookie_name'' EQUALS ''https://google.com/a''], True),
      (RemoveCall ''https://example.com'' 2
           [subscription ''cookie_name'' EQUALS ''https://google.com/a''], False)]
   \<and> bad_messages (snd (perform_calls example_url_origin
        [AddCall ''https://example.com'' 1
           [subscription ''cookie_name_prefix'' STARTS_WITH ''https://example.com/a''],
         AddCall ''https://google.com'' 2
           [subscription ''cookie_name'' EQUALS ''https://google.com/a''],
         RemoveCall ''https://example.com'' 2
           [subscription ''cookie_name'' EQUALS ''https://google.com/a'']]
        two_site_manager)) = [''Invalid service worker'']
   \<and> fst (GetSubscriptions ''https://google.com'' 2 (snd (perform_calls example_url_origin
        [AddCall ''https://example.com'' 1
           [subscription ''cookie_name_prefix'' STARTS_WITH ''https://example.com/a''],
         AddCall ''https://google.com'' 2
           [subscription ''cookie_name'' EQUALS ''https://google.com/a''],
         RemoveCall ''https://example.com'' 2
           [subscription ''cookie_name'' EQUALS ''https://google.com/a'']]
        two_site_manager)))
     = Some [subscription ''cookie_name'' EQUALS ''https://google.com/a'']"
  by (simp add: cookie_store_defs)

lemma test_GetSubscriptionsFromWrongOrigin:
  "GetSubscriptions ''https://google.com'' 1
     (snd (AddSubscriptions example_url_origin ''https://example.com'' 1
        [subscription ''cookie_name_prefix'' STARTS_WITH ''https://example.com/a'']
        two_site_manager))
   = (None, ReportBadMessage ''Invalid service worker''
        (snd (AddSubscriptions example_url_origin ''https://example.com'' 1
           [subscription ''cookie_name_prefix'' STARTS_WITH ''https://example.com/a'']
           two_site_manager)))"
  by (simp add: cookie_store_defs)

subsection \<open>What GetSubscriptions returns\<close>

lemma registration_origin_perform_call:
  "registration_origin (snd (perform_call uo c m)) = registration_origin m"
  by (cases c)
     (auto simp: AddSubscriptions_def RemoveSubscriptions_def ReportBadMessage_def Let_def
        split: option.splits)

lemma subscriptions_AddCall:
  "set (subscriptions_by_registration
          (snd (perform_call uo (AddCall so rid' subs) m)) rid)
   = (if fst (perform_call uo (AddCall so rid' subs) m) \<and> rid' = rid
      then set (subscriptions_by_registration m rid) \<union> set subs
      else set (subscriptions_by_registration m rid))"
  by (auto simp: AddSubscriptions_def ReportBadMessage_def Let_def split: option.splits)

lemma subscriptions_RemoveCall:
  "set (subscriptions_by_registration
          (snd (perform_call uo (RemoveCall so rid' subs) m)) rid)
   = (if fst (perform_call uo (RemoveCall so rid' subs) m) \<and> rid' = rid
      then set (subscriptions_by_registration m rid) - set subs
      else set (subscriptions_by_registration m rid))"
  by (auto simp: RemoveSubscriptions_def ReportBadMessage_def Let_def split: option.splits)

lemma distinct_perform_call:
  "distinct (subscriptions_by_registration m rid) \<Longrightarrow>
   distinct (subscriptions_by_registration (snd (perform_call uo c m)) rid)"
  by (cases c)
     (auto simp: AddSubscriptions_def RemoveSubscriptions_def ReportBadMessage_def Let_def
        split: option.splits)

lemma perform_calls_kept:
  "set (subscriptions_by_registration (snd (perform_calls uo calls m)) rid)
   = added_and_not_removed rid (set (subscriptions_by_registration m rid))
       (fst (perform_calls uo calls m))"
proof (induction calls arbitrary: m)
  case Nil
  show ?case by simp
next
  case (Cons c calls)
  show ?case
  proof (cases c)
    case (AddCall so rid' subs)
    then show ?thesis
      using Cons.IH [of "snd (perform_call uo c m)"] subscriptions_AddCall [of uo so rid' subs m rid]
      by (simp add: Let_def)
  next
    case (RemoveCall so rid' subs)
    then show ?thesis
      using Cons.IH [of "snd (perform_call uo c m)"]
        subscriptions_RemoveCall [of uo so rid' subs m rid]
      by (simp add: Let_def)
  qed
qed

lemma perform_calls_distinct:
  "distinct (subscriptions_by_registration m rid) \<Longrightarrow>
   distinct (subscriptions_by_registration (snd (perform_calls uo calls m)) rid)"
  by (induction calls arbitrary: m) (simp_all add: Let_def distinct_perform_call)

lemma perform_calls_origin:
  "registration_origin (snd (perform_calls uo calls m)) = registration_origin m"
  by (induction calls arbitrary: m) (simp_all add: Let_def registration_origin_perform_call)

lemma GetSubscriptions_own_origin:
  "registration_origin m rid = Some so \<Longrightarrow>
   fst (GetSubscriptions so rid m) = Some (subscriptions_by_registration m rid)"
  by (simp add: GetSubscriptions_def Let_def)

text \<open>
  C1. On the manager as modelled: after any run of \<^verbatim>\<open>AddSubscriptions\<close> and
  \<^verbatim>\<open>RemoveSubscriptions\<close> calls on a manager that started without subscriptions,
  \<^verbatim>\<open>GetSubscriptions\<close>, asked through the service of the registration's origin,
  returns exactly the subscriptions of the registration id that a successful
  \<^verbatim>\<open>AddSubscriptions\<close> call added and no later successful
  \<^verbatim>\<open>RemoveSubscriptions\<close> call removed, each once. With no addition before, it
  returns the empty list; after the addition of one subscription of the service's origin, it
  returns the one-element list of that subscription, with its name, match type and URL.
\<close>

theorem C1_subscriptions_added_and_not_removed:
  "(origins rid = Some service_origin \<longrightarrow>
      (\<exists>kept.
         fst (GetSubscriptions service_origin rid
                (snd (perform_calls url_origin calls (new_manager origins)))) = Some kept
         \<and> set kept = added_and_not_removed rid {}
                        (fst (perform_calls url_origin calls (new_manager origins)))
         \<and> distinct kept))
   \<and> fst (GetSubscriptions service_origin rid (new_manager origins)) = Some []
   \<and> (origins rid = Some service_origin \<and> url_origin u = service_origin \<longrightarrow>
        fst (AddSubscriptions url_origin service_origin rid
               [\<lparr>subscription_name = n, subscription_match_type = t, subscription_url = u\<rparr>]
               (new_manager origins))
        \<and> fst (GetSubscriptions service_origin rid
                 (snd (AddSubscriptions url_origin service_origin rid
                    [\<lparr>subscription_name = n, subscription_match_type = t,
                      subscription_url = u\<rparr>]
                    (new_manager origins))))
            = Some [\<lparr>subscription_name = n, subscription_match_type = t,
                     subscription_url = u\<rparr>])"
proof (intro conjI impI)
  assume own: "origins rid = Some service_origin"
  let ?m = "snd (perform_calls url_origin calls (new_manager origins))"
  have "registration_origin ?m rid = Some service_origin"
    using own by (simp add: perform_calls_origin new_manager_def)
  then have get: "fst (GetSubscriptions service_origin rid ?m)
      = Some (subscriptions_by_registration ?m rid)"
    by (rule GetSubscriptions_own_origin)
  have kept: "set (subscriptions_by_registration ?m rid)
      = added_and_not_removed rid {}
          (fst (perform_calls url_origin calls (new_manager origins)))"
    using perform_calls_kept [of url_origin calls "new_manager origins" rid]
    by (simp add: new_manager_def)
  have "distinct (subscriptions_by_registration ?m rid)"
    by (rule perform_calls_distinct) (simp add: new_manager_def)
  with get kept show "\<exists>kept.
         fst (GetSubscriptions service_origin rid ?m) = Some kept
         \<and> set kept = added_and_not_removed rid {}
                        (fst (perform_calls url_origin calls (new_manager origins)))
         \<and> distinct kept"
    by blast
next
  show "fst (GetSubscriptions service_origin rid (new_manager origins)) = Some []"
    by (simp add: GetSubscriptions_def new_manager_def)
next
  assume "origins rid = Some service_origin \<and> url_origin u = service_origin"
  then show "fst (AddSubscriptions url_origin service_origin rid
               [\<lparr>subscription_name = n, subscription_match_type = t, subscription_url = u\<rparr>]
               (new_manager origins))"
    by (simp add: AddSubscriptions_def new_manager_def)
next
  assume "origins rid = Some service_origin \<and> url_origin u = service_origin"
  then show "fst (GetSubscriptions service_origin rid
                 (snd (AddSubscriptions url_origin service_origin rid
                    [\<lparr>subscription_name = n, subscription_match_type = t,
                      subscription_url = u\<rparr>]
                    (new_manager origins))))
            = Some [\<lparr>subscription_name = n, subscription_match_type = t,
                     subscription_url = u\<rparr>]"
    by (simp add: AddSubscriptions_def GetSubscriptions_def new_manager_def Let_def)
qed

text \<open>
  The theorem on the tests' setting: nothing at first, the subscription of
  \<^verbatim>\<open>AddSubscriptions_OneSubscription\<close> after its addition, nothing again after its
  removal.
\<close>

theorem C1_subscriptions_added_and_not_removed_witness:
  "fst (GetSubscriptions ''https://example.com'' 1 example_manager) = Some []
   \<and> fst (AddSubscriptions example_url_origin ''https://example.com'' 1
            [example_subscription] example_manager)
   \<and> fst (GetSubscriptions ''https://example.com'' 1
            (snd (AddSubscriptions example_url_origin ''https://example.com'' 1
               [example_subscription] example_manager)))
       = Some [example_subscription]
   \<and> (\<exists>kept.
        fst (GetSubscriptions ''https://example.com'' 1
               (snd (perform_calls example_url_origin
                  [AddCall ''https://example.com'' 1 [example_subscription],
                   RemoveCall ''https://example.com'' 1 [example_subscription]]
                  example_manager))) = Some kept
        \<and> set kept = {})"
proof -
  have own: "[1 \<mapsto> ''https://example.com''] (1::int) = Some ''https://example.com''"
    by simp
  have url: "example_url_origin ''https://example.com/a'' = ''https://example.com''"
    by (simp add: example_url_origin_def StartsWith_def)
  note t = C1_subscriptions_added_and_not_removed [where origins = "[1 \<mapsto> ''https://example.com'']"
      and rid = 1 and service_origin = "''https://example.com''"
      and url_origin = example_url_origin and u = "''https://example.com/a''"
      and n = "''cookie_name_prefix''" and t = STARTS_WITH
      and calls = "[AddCall ''https://example.com'' 1 [example_subscription],
                   RemoveCall ''https://example.com'' 1 [example_subscription]]"]
  have history: "added_and_not_removed 1 {}
      (fst (perform_calls example_url_origin
         [AddCall ''https://example.com'' 1 [example_subscription],
          RemoveCall ''https://example.com'' 1 [example_subscription]]
         (new_manager [1 \<mapsto> ''https://example.com'']))) = {}"
    by (simp add: Let_def AddSubscriptions_def RemoveSubscriptions_def new_manager_def
        example_subscription_def example_url_origin_def StartsWith_def)
  from t own url history show ?thesis
    unfolding example_manager_def example_subscription_def by auto
qed

section \<open>Properties of the DevTools background services context\<close>

subsection \<open>Reading the logged events\<close>

lemma parse_events_None:
  "\<exists>d\<in>set data. parse (snd d) = None \<Longrightarrow> parse_events parse data acc = None"
  by (induction data arbitrary: acc) (auto split: option.splits)

lemma parse_events_Some:
  "\<forall>d\<in>set data. parse (snd d) \<noteq> None \<Longrightarrow>
   parse_events parse data acc = Some (acc @ map (\<lambda>d. the (parse (snd d))) data)"
  by (induction data arbitrary: acc) (auto split: option.splits)

lemma in_GetUserData:
  "((rid, k), v) \<in> set store \<Longrightarrow> StartsWith k p \<Longrightarrow>
   (rid, v) \<in> set (GetUserDataForAllRegistrationsByKeyPrefix p store)"
  by (force simp: GetUserDataForAllRegistrationsByKeyPrefix_def)

lemma DidGetUserData_sorted:
  "sorted (map timestamp (delivered_events (snd (DidGetUserData parse data status s))))"
  by (simp add: DidGetUserData_def Let_def split: option.split)

lemma DidGetUserData_error:
  "status \<noteq> kStatusOk \<Longrightarrow> snd (DidGetUserData parse data status s) = RunOnCoreThread []"
  by (simp add: DidGetUserData_def Let_def)

lemma DidGetUserData_unparsed:
  "\<exists>d\<in>set data. parse (snd d) = None \<Longrightarrow>
   snd (DidGetUserData parse data status s) = RunOnCoreThread []"
  by (simp add: DidGetUserData_def Let_def parse_events_None)

lemma DidGetUserData_ok:
  "status = kStatusOk \<Longrightarrow> \<forall>d\<in>set data. parse (snd d) \<noteq> None \<Longrightarrow>
   snd (DidGetUserData parse data status s)
     = PostedToUI (sort_key timestamp (map (\<lambda>d. the (parse (snd d))) data))"
  by (simp add: DidGetUserData_def Let_def parse_events_Some)

text \<open>
  C4. The events the callback of \<^verbatim>\<open>GetLoggedBackgroundServiceEvents\<close> receives are
  always in nondecreasing order of timestamp, and they are the empty vector whenever the
  read of the storage ends with a status other than \<^verbatim>\<open>kOk\<close> or an entry read does
  not parse as a \<^verbatim>\<open>BackgroundServiceEvent\<close>. Stated for \<^verbatim>\<open>DidGetUserData\<close> on any
  entries and status, and for the read of the storage that precedes it.
\<close>

theorem C4_events_sorted_or_empty:
  "sorted (map timestamp (delivered_events (snd (DidGetUserData parse data status s))))
   \<and> (status \<noteq> kStatusOk \<longrightarrow>
        delivered_events (snd (DidGetUserData parse data status s)) = [])
   \<and> ((\<exists>d\<in>set data. parse (snd d) = None) \<longrightarrow>
        delivered_events (snd (DidGetUserData parse data status s)) = [])
   \<and> sorted (map timestamp (delivered_events
        (snd (GetLoggedBackgroundServiceEventsOnCoreThread parse status service s))))
   \<and> (status \<noteq> kStatusOk \<longrightarrow>
        delivered_events
          (snd (GetLoggedBackgroundServiceEventsOnCoreThread parse status service s)) = [])
   \<and> ((\<exists>e\<in>set (registration_user_data s).
          StartsWith (snd (fst e)) (CreateEntryKeyPrefix service) \<and> parse (snd e) = None) \<longrightarrow>
        delivered_events
          (snd (GetLoggedBackgroundServiceEventsOnCoreThread parse status service s)) = [])"
proof -
  have a: "status \<noteq> kStatusOk \<longrightarrow>
      delivered_events (snd (DidGetUserData parse data status s)) = []" for data
    by (simp add: DidGetUserData_error)
  have b: "(\<exists>d\<in>set data. parse (snd d) = None) \<longrightarrow>
      delivered_events (snd (DidGetUserData parse data status s)) = []"
    by (simp add: DidGetUserData_unparsed)
  have c: "delivered_events
      (snd (GetLoggedBackgroundServiceEventsOnCoreThread parse status service s)) = []"
    if e: "\<exists>e\<in>set (registration_user_data s).
          StartsWith (snd (fst e)) (CreateEntryKeyPrefix service) \<and> parse (snd e) = None"
  proof (cases "status = kStatusOk")
    case True
    from e obtain rid k v where x: "((rid, k), v) \<in> set (registration_user_data s)"
        "StartsWith k (CreateEntryKeyPrefix service)" "parse v = None"
      by auto
    then have "(rid, v) \<in> set (GetUserDataForAllRegistrationsByKeyPrefix
        (CreateEntryKeyPrefix service) (registration_user_data s))"
      by (rule_tac in_GetUserData)
    with x(3) have "\<exists>d\<in>set (GetUserDataForAllRegistrationsByKeyPrefix
        (CreateEntryKeyPrefix service) (registration_user_data s)). parse (snd d) = None"
      by force
    then show ?thesis
      using True
      by (simp add: GetLoggedBackgroundServiceEventsOnCoreThread_def DidGetUserData_unparsed)
  next
    case False
    then show ?thesis
      by (simp add: GetLoggedBackgroundServiceEventsOnCoreThread_def DidGetUserData_error)
  qed
  show ?thesis
    using a b c
    by (simp add: DidGetUserData_sorted GetLoggedBackgroundServiceEventsOnCoreThread_def)
qed

text \<open>
  The theorem at work: a read that fails, a read with an entry that does not parse, and a
  read of two events stored out of order, on the example entries.
\<close>

theorem C4_events_sorted_or_empty_witness:
  "delivered_events (snd (DidGetUserData example_parse [(7, ''e9''), (7, ''e5'')] kErrorFailed
      (DevToolsBackgroundServicesContextImpl_ctor 0 [] []))) = []
   \<and> delivered_events (snd (DidGetUserData example_parse [(7, ''e9''), (7, ''junk'')] kStatusOk
      (DevToolsBackgroundServicesContextImpl_ctor 0 [] []))) = []
   \<and> map timestamp (delivered_events (snd (DidGetUserData example_parse
      [(7, ''e9''), (7, ''e5'')] kStatusOk
      (DevToolsBackgroundServicesContextImpl_ctor 0 [] [])))) = [5, 9]"
  using
    C4_events_sorted_or_empty [of example_parse "[(7, ''e9''), (7, ''e5'')]" kErrorFailed
      "DevToolsBackgroundServicesContextImpl_ctor 0 [] []"]
    C4_events_sorted_or_empty [of example_parse "[(7, ''e9''), (7, ''junk'')]" kStatusOk
      "DevToolsBackgroundServicesContextImpl_ctor 0 [] []"]
  by (simp add: example_parse_def example_event_def DidGetUserData_def)

subsection \<open>The recording state machine\<close>

lemma three_days: "FromDays 3 = 259200000000"
  by (simp add: FromDays_def kMicrosecondsPerDay_def)

lemma Time_plus_in_range:
  "0 \<le> now \<Longrightarrow> now \<le> int64_max - FromDays 3 \<Longrightarrow> Time_plus now (FromDays 3) = now + FromDays 3"
  by (simp add: Time_plus_def Let_def three_days int64_max_def int64_min_def)

lemma expiration_times_notify [simp]:
  "expiration_times (notify_observers c s) = expiration_times s"
  by (simp add: notify_observers_def)

lemma registration_user_data_notify [simp]:
  "registration_user_data (notify_observers c s) = registration_user_data s"
  by (simp add: notify_observers_def)

lemma expiration_StartRecording:
  "expiration_times (StartRecording now service s)
     = (expiration_times s)(service := Time_plus now (FromDays 3))"
  by (simp add: StartRecording_def Let_def)

lemma expiration_StopRecording:
  "expiration_times (StopRecording service s) = (expiration_times s)(service := 0)"
  by (simp add: StopRecording_def Let_def)

lemma StopRecording_not_recording:
  "\<not> IsRecording_proto (StopRecording service s) service"
  by (simp add: IsRecording_proto_def is_null_def expiration_StopRecording)

lemma Log_not_recording:
  "\<not> IsRecording s service \<Longrightarrow>
   LogBackgroundServiceEventOnCoreThread now stamp guid status serialize rid og service
     name inst md s = (s, [])"
  by (simp add: LogBackgroundServiceEventOnCoreThread_def)

lemma Log_expired:
  "IsRecording s service \<Longrightarrow> IsRecordingExpired now s (ServiceToProtoEnum service) \<Longrightarrow>
   LogBackgroundServiceEventOnCoreThread now stamp guid status serialize rid og service
     name inst md s = (s, [(UI, OnRecordingTimeExpired_task (ServiceToProtoEnum service))])"
  by (simp add: LogBackgroundServiceEventOnCoreThread_def)

lemma Log_recording:
  "IsRecording s service \<Longrightarrow> \<not> IsRecordingExpired now s (ServiceToProtoEnum service) \<Longrightarrow>
   LogBackgroundServiceEventOnCoreThread now stamp guid status serialize rid og service
     name inst md s =
   (let event = \<lparr>timestamp = stamp, origin = GetURL_spec og,
                 service_worker_registration_id = rid,
                 background_service = ServiceToProtoEnum service,
                 event_name = name, instance_id = inst, event_metadata = md\<rparr>
    in (s\<lparr>registration_user_data :=
            StoreRegistrationUserData status rid
              [(CreateEntryKey guid (ServiceToProtoEnum service), serialize event)]
              (registration_user_data s),
          histograms := histograms s @ [(''DevTools.BackgroundService.LogEvent'', status)]\<rparr>,
        [(UI, NotifyEventObservers_task event)]))"
  by (simp add: LogBackgroundServiceEventOnCoreThread_def Let_def)

lemma IsRecordingExpired_mono:
  "IsRecordingExpired now s service \<Longrightarrow> now \<le> later \<Longrightarrow> IsRecordingExpired later s service"
  by (auto simp: IsRecordingExpired_def Let_def)

text \<open>
  C3. \<^verbatim>\<open>StartRecording\<close> sets the expiration time of the service to the current time
  plus exactly three days and makes \<^verbatim>\<open>IsRecording\<close> return true, for a clock that is
  not before the Windows epoch and at least three days before the end of the
  \<^verbatim>\<open>int64_t\<close> range. \<^verbatim>\<open>StopRecording\<close> sets the expiration time to the null time
  and makes \<^verbatim>\<open>IsRecording\<close> return false.
  \<^verbatim>\<open>LogBackgroundServiceEventOnCoreThread\<close> changes the stored user data only when
  \<^verbatim>\<open>IsRecording\<close> is true and the expiration time has not passed, and then stores
  the event when the storage accepts the write; when the expiration time has passed it
  stores nothing and sends \<^verbatim>\<open>OnRecordingTimeExpired\<close> to the UI thread, which, run at
  that time or later, stops the recording.
\<close>

theorem C3_recording_state_machine:
  "(0 \<le> now \<and> now \<le> int64_max - FromDays 3 \<longrightarrow>
      expiration_times (StartRecording now service s) service = now + 3 * kMicrosecondsPerDay
      \<and> IsRecording_proto (StartRecording now service s) service
      \<and> IsRecording (StartRecording now (ServiceToProtoEnum public_service) s) public_service)
   \<and> expiration_times (StopRecording service s) service = 0
   \<and> is_null (expiration_times (StopRecording service s) service)
   \<and> \<not> IsRecording_proto (StopRecording service s) service
   \<and> \<not> IsRecording (StopRecording (ServiceToProtoEnum public_service) s) public_service
   \<and> (registration_user_data
         (fst (LogBackgroundServiceEventOnCoreThread now stamp guid status serialize rid og
                 public_service name inst md s)) \<noteq> registration_user_data s \<longrightarrow>
       IsRecording s public_service
       \<and> \<not> IsRecordingExpired now s (ServiceToProtoEnum public_service))
   \<and> (IsRecording s public_service
        \<and> \<not> IsRecordingExpired now s (ServiceToProtoEnum public_service)
        \<and> status = kStatusOk \<longrightarrow>
       registration_user_data
         (fst (LogBackgroundServiceEventOnCoreThread now stamp guid status serialize rid og
                 public_service name inst md s))
       = AList.update (rid, CreateEntryKey guid (ServiceToProtoEnum public_service))
           (serialize \<lparr>timestamp = stamp, origin = GetURL_spec og,
                 service_worker_registration_id = rid,
                 background_service = ServiceToProtoEnum public_service,
                 event_name = name, instance_id = inst, event_metadata = md\<rparr>)
           (registration_user_data s))
   \<and> (IsRecording s public_service
        \<and> IsRecordingExpired now s (ServiceToProtoEnum public_service) \<longrightarrow>
       LogBackgroundServiceEventOnCoreThread now stamp guid status serialize rid og
           public_service name inst md s
         = (s, [(UI, OnRecordingTimeExpired_task (ServiceToProtoEnum public_service))])
       \<and> (\<forall>later. now \<le> later \<longrightarrow>
             \<not> IsRecording
                 (OnRecordingTimeExpired later (ServiceToProtoEnum public_service) s)
                 public_service))"
proof -
  have start: "expiration_times (StartRecording now sv s) sv = now + 3 * kMicrosecondsPerDay
      \<and> IsRecording_proto (StartRecording now sv s) sv"
    if "0 \<le> now" "now \<le> int64_max - FromDays 3" for sv
    using that
    by (simp add: expiration_StartRecording Time_plus_in_range IsRecording_proto_def
        is_null_def) (simp add: FromDays_def kMicrosecondsPerDay_def)
  have only_when: "IsRecording s public_service
       \<and> \<not> IsRecordingExpired now s (ServiceToProtoEnum public_service)"
    if "registration_user_data
         (fst (LogBackgroundServiceEventOnCoreThread now stamp guid status serialize rid og
                 public_service name inst md s)) \<noteq> registration_user_data s"
    using that
    by (cases "IsRecording s public_service";
        cases "IsRecordingExpired now s (ServiceToProtoEnum public_service)")
       (simp_all add: Log_not_recording Log_expired)
  have stored: "registration_user_data
         (fst (LogBackgroundServiceEventOnCoreThread now stamp guid status serialize rid og
                 public_service name inst md s))
       = AList.update (rid, CreateEntryKey guid (ServiceToProtoEnum public_service))
           (serialize \<lparr>timestamp = stamp, origin = GetURL_spec og,
                 service_worker_registration_id = rid,
                 background_service = ServiceToProtoEnum public_service,
                 event_name = name, instance_id = inst, event_metadata = md\<rparr>)
           (registration_user_data s)"
    if "IsRecording s public_service"
       "\<not> IsRecordingExpired now s (ServiceToProtoEnum public_service)" "status = kStatusOk"
    using that by (simp add: Log_recording Let_def StoreRegistrationUserData_def)
  have stops: "\<not> IsRecording
                 (OnRecordingTimeExpired later (ServiceToProtoEnum public_service) s)
                 public_service"
    if "IsRecordingExpired now s (ServiceToProtoEnum public_service)" "now \<le> later" for later
    using IsRecordingExpired_mono [OF that]
    by (simp add: OnRecordingTimeExpired_def IsRecording_def StopRecording_not_recording)
  show ?thesis
    apply (intro conjI impI allI)
    subgoal using start [of service] by simp
    subgoal using start [of service] by simp
    subgoal using start [of "ServiceToProtoEnum public_service"] by (simp add: IsRecording_def)
    subgoal by (simp add: expiration_StopRecording)
    subgoal by (simp add: expiration_StopRecording is_null_def)
    subgoal by (rule StopRecording_not_recording)
    subgoal by (simp add: IsRecording_def StopRecording_not_recording)
    subgoal using only_when by simp
    subgoal using only_when by simp
    subgoal using stored by simp
    subgoal by (simp add: Log_expired)
    subgoal using stops by simp
    done
qed

text \<open>
  The theorem on the example context: recording started at time 1000 ends at
  259200001000; an event logged at time 2000 is stored, one logged after the end is not,
  and the task sent then stops the recording.
\<close>

lemma key1: "CreateEntryKey ''guid'' BACKGROUND_FETCH = ''devtools_background_services_1_guid''"
  by (simp add: CreateEntryKey_def CreateEntryKeyPrefix_def NumberToString.simps digit_char_def)

lemma recording_context_expiration:
  "expiration_times recording_context BACKGROUND_FETCH = 259200001000"
  by (simp add: recording_context_def example_context_def expiration_StartRecording
     DevToolsBackgroundServicesContextImpl_ctor_def Time_plus_def Let_def int64_max_def
     int64_min_def three_days)

lemma recording_context_user_data: "registration_user_data recording_context = []"
  by (simp add: recording_context_def example_context_def StartRecording_def Let_def
     DevToolsBackgroundServicesContextImpl_ctor_def)

theorem C3_recording_state_machine_witness:
  "expiration_times (StartRecording 1000 BACKGROUND_FETCH example_context) BACKGROUND_FETCH
     = 259200001000
   \<and> IsRecording (StartRecording 1000 BACKGROUND_FETCH example_context) kBackgroundFetch
   \<and> \<not> IsRecording (StopRecording BACKGROUND_FETCH recording_context) kBackgroundFetch
   \<and> registration_user_data
       (fst (LogBackgroundServiceEventOnCoreThread 2000 2001 ''guid'' kStatusOk (\<lambda>e. e) 7
          (Origin ''https://example.com/'') kBackgroundFetch ''name'' ''id'' Map.empty
          recording_context))
     = [((7, CreateEntryKey ''guid'' BACKGROUND_FETCH),
         \<lparr>timestamp = 2001, origin = ''https://example.com/'',
          service_worker_registration_id = 7, background_service = BACKGROUND_FETCH,
          event_name = ''name'', instance_id = ''id'', event_metadata = Map.empty\<rparr>)]
   \<and> LogBackgroundServiceEventOnCoreThread 259200001001 259200001002 ''guid'' kStatusOk
       (\<lambda>e. e) 7 (Origin ''https://example.com/'') kBackgroundFetch ''name'' ''id'' Map.empty
       recording_context
     = (recording_context, [(UI, OnRecordingTimeExpired_task BACKGROUND_FETCH)])
   \<and> \<not> IsRecording (OnRecordingTimeExpired 259200001001 BACKGROUND_FETCH recording_context)
         kBackgroundFetch"
proof -
  have clock: "(0::int) \<le> 1000 \<and> 1000 \<le> int64_max - FromDays 3"
    by (simp add: int64_max_def three_days)
  have recording: "IsRecording recording_context kBackgroundFetch"
    by (simp add: IsRecording_def IsRecording_proto_def is_null_def
        recording_context_expiration)
  have fresh: "\<not> IsRecordingExpired 2000 recording_context (ServiceToProtoEnum kBackgroundFetch)"
    by (simp add: IsRecordingExpired_def is_null_def recording_context_expiration)
  have expired:
    "IsRecordingExpired 259200001001 recording_context (ServiceToProtoEnum kBackgroundFetch)"
    by (simp add: IsRecordingExpired_def is_null_def recording_context_expiration)
  note started = C3_recording_state_machine [of 1000 BACKGROUND_FETCH example_context
      kBackgroundFetch]
  note logged = C3_recording_state_machine [of 2000 BACKGROUND_FETCH recording_context
      kBackgroundFetch 2001 "''guid''" kStatusOk "\<lambda>e. e" 7 "Origin ''https://example.com/''"
      "''name''" "''id''" Map.empty]
  note late = C3_recording_state_machine [of 259200001001 BACKGROUND_FETCH recording_context
      kBackgroundFetch 259200001002 "''guid''" kStatusOk "\<lambda>e. e" 7
      "Origin ''https://example.com/''" "''name''" "''id''" Map.empty]
  have a: "expiration_times (StartRecording 1000 BACKGROUND_FETCH example_context)
      BACKGROUND_FETCH = 259200001000
    \<and> IsRecording (StartRecording 1000 BACKGROUND_FETCH example_context) kBackgroundFetch"
    using started clock by (simp add: kMicrosecondsPerDay_def)
  have b: "\<not> IsRecording (StopRecording BACKGROUND_FETCH recording_context) kBackgroundFetch"
    using logged by simp
  have c0: "registration_user_data
       (fst (LogBackgroundServiceEventOnCoreThread 2000 2001 ''guid'' kStatusOk (\<lambda>e. e) 7
          (Origin ''https://example.com/'') kBackgroundFetch ''name'' ''id'' Map.empty
          recording_context))
     = AList.update (7, CreateEntryKey ''guid'' (ServiceToProtoEnum kBackgroundFetch))
         \<lparr>timestamp = 2001, origin = GetURL_spec (Origin ''https://example.com/''),
          service_worker_registration_id = 7,
          background_service = ServiceToProtoEnum kBackgroundFetch,
          event_name = ''name'', instance_id = ''id'', event_metadata = Map.empty\<rparr>
         (registration_user_data recording_context)"
    using logged recording fresh by blast
  have c: "registration_user_data
       (fst (LogBackgroundServiceEventOnCoreThread 2000 2001 ''guid'' kStatusOk (\<lambda>e. e) 7
          (Origin ''https://example.com/'') kBackgroundFetch ''name'' ''id'' Map.empty
          recording_context))
     = [((7, CreateEntryKey ''guid'' BACKGROUND_FETCH),
         \<lparr>timestamp = 2001, origin = ''https://example.com/'',
          service_worker_registration_id = 7, background_service = BACKGROUND_FETCH,
          event_name = ''name'', instance_id = ''id'', event_metadata = Map.empty\<rparr>)]"
    unfolding c0 by (simp add: recording_context_user_data)
  have d0: "LogBackgroundServiceEventOnCoreThread 259200001001 259200001002 ''guid'' kStatusOk
       (\<lambda>e. e) 7 (Origin ''https://example.com/'') kBackgroundFetch ''name'' ''id'' Map.empty
       recording_context
     = (recording_context,
        [(UI, OnRecordingTimeExpired_task (ServiceToProtoEnum kBackgroundFetch))])
   \<and> \<not> IsRecording (OnRecordingTimeExpired 259200001001
          (ServiceToProtoEnum kBackgroundFetch) recording_context) kBackgroundFetch"
    using late recording expired by blast
  have d: "LogBackgroundServiceEventOnCoreThread 259200001001 259200001002 ''guid'' kStatusOk
       (\<lambda>e. e) 7 (Origin ''https://example.com/'') kBackgroundFetch ''name'' ''id'' Map.empty
       recording_context
     = (recording_context, [(UI, OnRecordingTimeExpired_task BACKGROUND_FETCH)])
   \<and> \<not> IsRecording (OnRecordingTimeExpired 259200001001 BACKGROUND_FETCH recording_context)
         kBackgroundFetch"
    using d0 by simp
  show ?thesis using a b c d by blast
qed

subsection \<open>Logging an event and reading it back\<close>

lemma update_fresh:
  "k \<notin> fst ` set al \<Longrightarrow> AList.update k v al = al @ [(k, v)]"
  by (induction al) auto

lemma update_member: "(k, v) \<in> set (AList.update k v al)"
  by (induction al) auto

lemma update_subset: "set (AList.update k v al) \<subseteq> insert (k, v) (set al)"
  by (induction al) auto

lemma StartsWith_append: "StartsWith (p @ rest) p"
  by (simp add: StartsWith_def)

lemma StartsWith_own_key:
  "StartsWith (CreateEntryKey guid service) (CreateEntryKeyPrefix service)"
  by (simp add: CreateEntryKey_def StartsWith_append)

lemma GetUserData_parse_all:
  assumes "\<forall>e\<in>set store. StartsWith (snd (fst e)) p \<longrightarrow> parse (snd e) \<noteq> None"
  shows "\<forall>d\<in>set (GetUserDataForAllRegistrationsByKeyPrefix p store). parse (snd d) \<noteq> None"
  using assms by (auto simp: GetUserDataForAllRegistrationsByKeyPrefix_def)

text \<open>
  C2. Let recording of the service be active and not expired. A call of
  \<^verbatim>\<open>LogBackgroundServiceEvent\<close> sends the work to the core thread; run there, with a
  storage that accepts the write, it stores exactly one entry, under the registration id
  and the key made of the service's prefix and the GUID (appended to the stored entries
  when that key is new): the serialized event whose timestamp is the clock's reading, whose
  origin is the spec of the origin's URL, and whose registration id, background service,
  event name, instance id and metadata are the values logged. The event is also sent to
  the observers. A following \<^verbatim>\<open>GetLoggedBackgroundServiceEvents\<close> for the service,
  whose read of the storage succeeds, posts to the UI thread a sorted vector that holds
  that event, given that parsing undoes the serialization of the event and that the other
  entries stored under the service's prefix parse. The background service of the event is
  the member of the schema's enum that \<^verbatim>\<open>ServiceToProtoEnum\<close> gives for the service
  logged: Background Fetch, Background Sync, Push Messaging, Notifications, Payment Handler
  and Periodic Background Sync each go to the member of their name.
\<close>

theorem C2_log_round_trip:
  assumes recording: "IsRecording s service"
    and unexpired: "\<not> IsRecordingExpired now s (ServiceToProtoEnum service)"
    and ev: "ev = \<lparr>timestamp = stamp, origin = GetURL_spec og,
                   service_worker_registration_id = rid,
                   background_service = ServiceToProtoEnum service,
                   event_name = name, instance_id = inst, event_metadata = md\<rparr>"
    and codec: "parse (serialize ev) = Some ev"
    and others: "\<forall>e\<in>set (registration_user_data s).
        StartsWith (snd (fst e)) (CreateEntryKeyPrefix (ServiceToProtoEnum service)) \<longrightarrow>
        parse (snd e) \<noteq> None"
    and logged: "logged = run_task now stamp guid kStatusOk serialize parse
        (snd (LogBackgroundServiceEvent rid og service name inst md)) s"
    and answer: "answer = run_task later later_stamp later_guid kStatusOk serialize parse
        (snd (GetLoggedBackgroundServiceEvents (ServiceToProtoEnum service))) (fst logged)"
  shows "fst (LogBackgroundServiceEvent rid og service name inst md) = CoreThread
    \<and> registration_user_data (fst logged)
        = AList.update (rid, CreateEntryKey guid (ServiceToProtoEnum service)) (serialize ev)
            (registration_user_data s)
    \<and> ((rid, CreateEntryKey guid (ServiceToProtoEnum service))
          \<notin> fst ` set (registration_user_data s) \<longrightarrow>
        registration_user_data (fst logged)
          = registration_user_data s
            @ [((rid, CreateEntryKey guid (ServiceToProtoEnum service)), serialize ev)])
    \<and> fst (snd logged) = [(UI, NotifyEventObservers_task ev)]
    \<and> fst (GetLoggedBackgroundServiceEvents (ServiceToProtoEnum service)) = CoreThread
    \<and> (\<exists>events. snd (snd answer) = Some (PostedToUI events)
          \<and> ev \<in> set events \<and> sorted (map timestamp events))
    \<and> background_service ev =
        (case service of
           kBackgroundFetch \<Rightarrow> BACKGROUND_FETCH
         | kBackgroundSync \<Rightarrow> BACKGROUND_SYNC
         | kPushMessaging \<Rightarrow> PUSH_MESSAGING
         | kNotifications \<Rightarrow> NOTIFICATIONS
         | kPaymentHandler \<Rightarrow> PAYMENT_HANDLER
         | kPeriodicBackgroundSync \<Rightarrow> PERIODIC_BACKGROUND_SYNC)
    \<and> ServiceToProtoEnum kBackgroundFetch = BACKGROUND_FETCH
    \<and> ServiceToProtoEnum kBackgroundSync = BACKGROUND_SYNC
    \<and> ServiceToProtoEnum kPushMessaging = PUSH_MESSAGING
    \<and> ServiceToProtoEnum kNotifications = NOTIFICATIONS
    \<and> ServiceToProtoEnum kPaymentHandler = PAYMENT_HANDLER
    \<and> ServiceToProtoEnum kPeriodicBackgroundSync = PERIODIC_BACKGROUND_SYNC"
proof -
  let ?key = "(rid, CreateEntryKey guid (ServiceToProtoEnum service))"
  let ?prefix = "CreateEntryKeyPrefix (ServiceToProtoEnum service)"
  have log: "logged =
      (s\<lparr>registration_user_data :=
           AList.update ?key (serialize ev) (registration_user_data s),
         histograms := histograms s @ [(''DevTools.BackgroundService.LogEvent'', kStatusOk)]\<rparr>,
       [(UI, NotifyEventObservers_task ev)], None)"
    using recording unexpired
    by (simp add: logged run_task_def LogBackgroundServiceEvent_def Log_recording Let_def
        StoreRegistrationUserData_def ev)
  have store: "registration_user_data (fst logged)
      = AList.update ?key (serialize ev) (registration_user_data s)"
    by (simp add: log)
  have all_parse: "\<forall>e\<in>set (registration_user_data (fst logged)).
      StartsWith (snd (fst e)) ?prefix \<longrightarrow> parse (snd e) \<noteq> None"
  proof (intro ballI impI)
    fix e
    assume e: "e \<in> set (registration_user_data (fst logged))"
      and p: "StartsWith (snd (fst e)) ?prefix"
    from e store update_subset [of ?key "serialize ev" "registration_user_data s"]
    have "e = (?key, serialize ev) \<or> e \<in> set (registration_user_data s)"
      by auto
    then show "parse (snd e) \<noteq> None"
      using codec others p by auto
  qed
  let ?data = "GetUserDataForAllRegistrationsByKeyPrefix ?prefix
      (registration_user_data (fst logged))"
  have member: "(rid, serialize ev) \<in> set ?data"
    unfolding store
    by (rule in_GetUserData [OF update_member StartsWith_own_key])
  have read: "snd (snd answer)
      = Some (PostedToUI (sort_key timestamp (map (\<lambda>d. the (parse (snd d))) ?data)))"
    using GetUserData_parse_all [OF all_parse]
    by (simp add: answer run_task_def GetLoggedBackgroundServiceEvents_def Let_def
        GetLoggedBackgroundServiceEventsOnCoreThread_def DidGetUserData_ok)
  have "the (parse (snd (rid, serialize ev))) \<in> (\<lambda>d. the (parse (snd d))) ` set ?data"
    using member by (rule imageI)
  then have ev_in: "ev \<in> set (sort_key timestamp (map (\<lambda>d. the (parse (snd d))) ?data))"
    by (simp add: codec)
  show ?thesis
    apply (intro conjI impI)
    subgoal by (simp add: LogBackgroundServiceEvent_def)
    subgoal by (rule store)
    subgoal by (simp add: store update_fresh)
    subgoal by (simp add: log)
    subgoal by (simp add: GetLoggedBackgroundServiceEvents_def)
    subgoal using read ev_in by simp
    subgoal by (cases service) (simp_all add: ev)
    subgoal by simp
    subgoal by simp
    subgoal by simp
    subgoal by simp
    subgoal by simp
    subgoal by simp
    done
qed


text \<open>
  The theorem on two example contexts, whose entries hold the message itself: a Background
  Fetch event logged at time 2000 is the one entry stored and is read back, and a Push
  Messaging event logged while an entry of Background Fetch is stored is appended under the
  key of Push Messaging and read back as a Push Messaging event.
\<close>

lemma example_event_2001:
  "example_event 2001 = \<lparr>timestamp = 2001, origin = GetURL_spec (Origin ''https://example.com/''),
       service_worker_registration_id = 7,
       background_service = ServiceToProtoEnum kBackgroundFetch,
       event_name = ''name'', instance_id = ''id'', event_metadata = Map.empty\<rparr>"
  by (simp add: example_event_def)

lemma push_event_2001:
  "push_event 2001 = \<lparr>timestamp = 2001, origin = GetURL_spec (Origin ''https://example.com/''),
       service_worker_registration_id = 8,
       background_service = ServiceToProtoEnum kPushMessaging,
       event_name = ''push'', instance_id = ''p1'', event_metadata = [''k'' \<mapsto> ''v'']\<rparr>"
  by (simp add: push_event_def)

lemma push_context_expiration:
  "expiration_times push_context PUSH_MESSAGING = 259200001500"
  by (simp add: push_context_def example_context_def expiration_StartRecording
     DevToolsBackgroundServicesContextImpl_ctor_def Time_plus_def Let_def int64_max_def
     int64_min_def three_days)

lemma push_context_user_data:
  "registration_user_data push_context
     = [((7, CreateEntryKey ''guid'' BACKGROUND_FETCH), example_event 2001)]"
  by (simp add: push_context_def example_context_def StartRecording_def Let_def
     DevToolsBackgroundServicesContextImpl_ctor_def)

lemma push_key_unused:
  "CreateEntryKey ''guid'' PUSH_MESSAGING \<noteq> CreateEntryKey ''guid'' BACKGROUND_FETCH"
  by (simp add: CreateEntryKey_def CreateEntryKeyPrefix_def NumberToString.simps
      digit_char_def)

theorem C2_log_round_trip_witness:
  "registration_user_data
     (fst (run_task 2000 2001 ''guid'' kStatusOk (\<lambda>e. e) Some
        (snd (LogBackgroundServiceEvent 7 (Origin ''https://example.com/'') kBackgroundFetch
           ''name'' ''id'' Map.empty)) recording_context))
     = [((7, CreateEntryKey ''guid'' BACKGROUND_FETCH), example_event 2001)]
   \<and> fst (snd (run_task 2000 2001 ''guid'' kStatusOk (\<lambda>e. e) Some
        (snd (LogBackgroundServiceEvent 7 (Origin ''https://example.com/'') kBackgroundFetch
           ''name'' ''id'' Map.empty)) recording_context))
     = [(UI, NotifyEventObservers_task (example_event 2001))]
   \<and> (\<exists>events.
        snd (snd (run_task 3000 3001 ''other'' kStatusOk (\<lambda>e. e) Some
          (snd (GetLoggedBackgroundServiceEvents BACKGROUND_FETCH))
          (fst (run_task 2000 2001 ''guid'' kStatusOk (\<lambda>e. e) Some
             (snd (LogBackgroundServiceEvent 7 (Origin ''https://example.com/'')
                kBackgroundFetch ''name'' ''id'' Map.empty)) recording_context))))
          = Some (PostedToUI events)
        \<and> example_event 2001 \<in> set events)
   \<and> background_service (example_event 2001) = BACKGROUND_FETCH
   \<and> registration_user_data
     (fst (run_task 2000 2001 ''guid'' kStatusOk (\<lambda>e. e) Some
        (snd (LogBackgroundServiceEvent 8 (Origin ''https://example.com/'') kPushMessaging
           ''push'' ''p1'' [''k'' \<mapsto> ''v''])) push_context))
     = [((7, CreateEntryKey ''guid'' BACKGROUND_FETCH), example_event 2001),
        ((8, CreateEntryKey ''guid'' PUSH_MESSAGING), push_event 2001)]
   \<and> (\<exists>events.
        snd (snd (run_task 3000 3001 ''other'' kStatusOk (\<lambda>e. e) Some
          (snd (GetLoggedBackgroundServiceEvents PUSH_MESSAGING))
          (fst (run_task 2000 2001 ''guid'' kStatusOk (\<lambda>e. e) Some
             (snd (LogBackgroundServiceEvent 8 (Origin ''https://example.com/'')
                kPushMessaging ''push'' ''p1'' [''k'' \<mapsto> ''v''])) push_context))))
          = Some (PostedToUI events)
        \<and> push_event 2001 \<in> set events)
   \<and> background_service (push_event 2001) = PUSH_MESSAGING"
proof -
  have recording: "IsRecording recording_context kBackgroundFetch"
    by (simp add: IsRecording_def IsRecording_proto_def is_null_def
        recording_context_expiration)
  have fresh: "\<not> IsRecordingExpired 2000 recording_context (ServiceToProtoEnum kBackgroundFetch)"
    by (simp add: IsRecordingExpired_def is_null_def recording_context_expiration)
  have others: "\<forall>e\<in>set (registration_user_data recording_context).
      StartsWith (snd (fst e)) (CreateEntryKeyPrefix (ServiceToProtoEnum kBackgroundFetch)) \<longrightarrow>
      Some (snd e) \<noteq> None"
    by simp
  have unused: "(7, CreateEntryKey ''guid'' (ServiceToProtoEnum kBackgroundFetch))
      \<notin> fst ` set (registration_user_data recording_context)"
    by (simp add: recording_context_user_data)
  have fetch: "registration_user_data
     (fst (run_task 2000 2001 ''guid'' kStatusOk (\<lambda>e. e) Some
        (snd (LogBackgroundServiceEvent 7 (Origin ''https://example.com/'') kBackgroundFetch
           ''name'' ''id'' Map.empty)) recording_context))
     = [((7, CreateEntryKey ''guid'' BACKGROUND_FETCH), example_event 2001)]
   \<and> fst (snd (run_task 2000 2001 ''guid'' kStatusOk (\<lambda>e. e) Some
        (snd (LogBackgroundServiceEvent 7 (Origin ''https://example.com/'') kBackgroundFetch
           ''name'' ''id'' Map.empty)) recording_context))
     = [(UI, NotifyEventObservers_task (example_event 2001))]
   \<and> (\<exists>events.
        snd (snd (run_task 3000 3001 ''other'' kStatusOk (\<lambda>e. e) Some
          (snd (GetLoggedBackgroundServiceEvents BACKGROUND_FETCH))
          (fst (run_task 2000 2001 ''guid'' kStatusOk (\<lambda>e. e) Some
             (snd (LogBackgroundServiceEvent 7 (Origin ''https://example.com/'')
                kBackgroundFetch ''name'' ''id'' Map.empty)) recording_context))))
          = Some (PostedToUI events)
        \<and> example_event 2001 \<in> set events)
   \<and> background_service (example_event 2001) = BACKGROUND_FETCH"
    using C2_log_round_trip [where s = recording_context and service = kBackgroundFetch
        and now = 2000 and stamp = 2001 and ev = "example_event 2001"
        and og = "Origin ''https://example.com/''" and rid = 7 and name = "''name''"
        and inst = "''id''" and md = Map.empty and parse = Some and serialize = "\<lambda>e. e"
        and guid = "''guid''" and later = 3000 and later_stamp = 3001
        and later_guid = "''other''",
        OF recording fresh example_event_2001 refl others refl refl] unused
    by (auto simp: recording_context_user_data)
  have push_recording: "IsRecording push_context kPushMessaging"
    by (simp add: IsRecording_def IsRecording_proto_def is_null_def push_context_expiration)
  have push_fresh:
    "\<not> IsRecordingExpired 2000 push_context (ServiceToProtoEnum kPushMessaging)"
    by (simp add: IsRecordingExpired_def is_null_def push_context_expiration)
  have push_others: "\<forall>e\<in>set (registration_user_data push_context).
      StartsWith (snd (fst e)) (CreateEntryKeyPrefix (ServiceToProtoEnum kPushMessaging)) \<longrightarrow>
      Some (snd e) \<noteq> None"
    by simp
  have push_unused: "(8, CreateEntryKey ''guid'' (ServiceToProtoEnum kPushMessaging))
      \<notin> fst ` set (registration_user_data push_context)"
    by (simp add: push_context_user_data)
  have push: "registration_user_data
     (fst (run_task 2000 2001 ''guid'' kStatusOk (\<lambda>e. e) Some
        (snd (LogBackgroundServiceEvent 8 (Origin ''https://example.com/'') kPushMessaging
           ''push'' ''p1'' [''k'' \<mapsto> ''v''])) push_context))
     = [((7, CreateEntryKey ''guid'' BACKGROUND_FETCH), example_event 2001),
        ((8, CreateEntryKey ''guid'' PUSH_MESSAGING), push_event 2001)]
   \<and> (\<exists>events.
        snd (snd (run_task 3000 3001 ''other'' kStatusOk (\<lambda>e. e) Some
          (snd (GetLoggedBackgroundServiceEvents PUSH_MESSAGING))
          (fst (run_task 2000 2001 ''guid'' kStatusOk (\<lambda>e. e) Some
             (snd (LogBackgroundServiceEvent 8 (Origin ''https://example.com/'')
                kPushMessaging ''push'' ''p1'' [''k'' \<mapsto> ''v''])) push_context))))
          = Some (PostedToUI events)
        \<and> push_event 2001 \<in> set events)
   \<and> background_service (push_event 2001) = PUSH_MESSAGING"
    using C2_log_round_trip [where s = push_context and service = kPushMessaging
        and now = 2000 and stamp = 2001 and ev = "push_event 2001"
        and og = "Origin ''https://example.com/''" and rid = 8 and name = "''push''"
        and inst = "''p1''" and md = "[''k'' \<mapsto> ''v'']" and parse = Some
        and serialize = "\<lambda>e. e"
        and guid = "''guid''" and later = 3000 and later_stamp = 3001
        and later_guid = "''other''",
        OF push_recording push_fresh push_event_2001 refl push_others refl refl] push_unused
    by (auto simp: push_context_user_data)
  from fetch push show ?thesis by blast
qed

section \<open>Properties of the URL rewriting\<close>

lemma StartsWith_iff: "StartsWith str p \<longleftrightarrow> (\<exists>rest. str = p @ rest)"
proof
  assume "StartsWith str p"
  then have "take (length p) str = p"
    by (simp add: StartsWith_def split: if_splits)
  then have "str = p @ drop (length p) str"
    by (metis append_take_drop_id)
  then show "\<exists>rest. str = p @ rest" ..
next
  assume "\<exists>rest. str = p @ rest"
  then show "StartsWith str p"
    by (auto simp: StartsWith_def)
qed

lemma piece_chars_of [simp]: "piece_chars (StringPiece_of str) = str"
  by (simp add: piece_chars_def StringPiece_of_def)

lemma takeWhile_before_NUL:
  "takeWhile (\<lambda>c. c \<noteq> CHR 0x00) (rest @ [CHR 0x00]) = takeWhile (\<lambda>c. c \<noteq> CHR 0x00) rest"
  by (induction rest) auto

lemma takeWhile_no_NUL:
  "CHR 0x00 \<notin> set rest \<Longrightarrow> takeWhile (\<lambda>c. c \<noteq> CHR 0x00) rest = rest"
  by (auto simp: takeWhile_eq_all_conv)

text \<open>
  On a piece that views a whole string, the append through \<^verbatim>\<open>data()\<close> takes what
  follows the prefix up to its first NUL character.
\<close>

lemma append_data_of:
  "append_data str (substr (StringPiece_of (prefix @ rest)) (length prefix))
     = Inr (str @ takeWhile (\<lambda>c. c \<noteq> CHR 0x00) rest)"
  by (simp add: append_data_def substr_def StringPiece_of_def takeWhile_before_NUL)

lemma rewrite_gen:
  "build_directory env = Some build \<Longrightarrow>
   RewriteWebTestsURL env path (StringPiece_of (''file:///gen/'' @ rest)) False
     = Inr (WebURL (GURL env (''file://'' @ Append env build ''gen/''
                                @ takeWhile (\<lambda>c. c \<noteq> CHR 0x00) rest)), path)"
  using append_data_of [of "''file://'' @ Append env build ''gen/''" "''file:///gen/''" rest]
  by (simp add: RewriteWebTestsURL_def StartsWith_def kGenPrefix_def GetBuildDirectory_def)

lemma rewrite_web_tests:
  "DIR_SOURCE_ROOT env = Some root \<Longrightarrow>
   RewriteWebTestsURL env [] (StringPiece_of (''file:///tmp/web_tests/'' @ rest)) False
     = Inr (WebURL (GURL env (''file://'' @ Append env root ''third_party/blink/web_tests/''
                                @ takeWhile (\<lambda>c. c \<noteq> CHR 0x00) rest)),
            Append env root ''third_party/blink/web_tests/'')"
  using append_data_of [of "''file://'' @ Append env root ''third_party/blink/web_tests/''"
      "''file:///tmp/web_tests/''" rest]
  by (simp add: RewriteWebTestsURL_def StartsWith_def kGenPrefix_def kPrefix_def
      GetWebTestsFilePath_def Let_def)

lemma rewrite_web_tests_cached:
  "path \<noteq> [] \<Longrightarrow>
   RewriteWebTestsURL env path (StringPiece_of (''file:///tmp/web_tests/'' @ rest)) False
     = Inr (WebURL (GURL env (''file://'' @ path @ takeWhile (\<lambda>c. c \<noteq> CHR 0x00) rest)),
            path)"
  using append_data_of [of "''file://'' @ path" "''file:///tmp/web_tests/''" rest]
  by (simp add: RewriteWebTestsURL_def StartsWith_def kGenPrefix_def kPrefix_def
      GetWebTestsFilePath_def Let_def)

lemma rewrite_other:
  "\<not> StartsWith (piece_chars utf8_url) ''file:///tmp/web_tests/'' \<Longrightarrow>
   \<not> StartsWith (piece_chars utf8_url) ''file:///gen/'' \<Longrightarrow>
   RewriteWebTestsURL env path utf8_url False
     = Inr (WebURL (GURL env (piece_chars utf8_url)), path)"
  by (simp add: RewriteWebTestsURL_def kGenPrefix_def kPrefix_def)

text \<open>
  So the prefix is replaced, and all that follows it kept, on a piece that views a whole
  string with no NUL character after the prefix.
\<close>

lemma rewrite_gen_no_NUL:
  "build_directory env = Some build \<Longrightarrow> CHR 0x00 \<notin> set rest \<Longrightarrow>
   RewriteWebTestsURL env path (StringPiece_of (''file:///gen/'' @ rest)) False
     = Inr (WebURL (GURL env (''file://'' @ Append env build ''gen/'' @ rest)), path)"
  using rewrite_gen [of env build path rest] by (simp add: takeWhile_no_NUL)

lemma rewrite_web_tests_no_NUL:
  "DIR_SOURCE_ROOT env = Some root \<Longrightarrow> CHR 0x00 \<notin> set rest \<Longrightarrow>
   RewriteWebTestsURL env [] (StringPiece_of (''file:///tmp/web_tests/'' @ rest)) False
     = Inr (WebURL (GURL env (''file://'' @ Append env root ''third_party/blink/web_tests/''
                                @ rest)),
            Append env root ''third_party/blink/web_tests/'')"
  using rewrite_web_tests [of env root rest] by (simp add: takeWhile_no_NUL)

lemma rewrite_examples:
  "RewriteWebTestsURL example_platform [] (StringPiece_of ''file:///tmp/web_tests/fast/a.html'')
       False
     = Inr (WebURL ''file:///src/third_party/blink/web_tests/fast/a.html'',
            ''/src/third_party/blink/web_tests/'')"
  "RewriteWebTestsURL example_platform [] (StringPiece_of ''file:///gen/x/y.js'') False
     = Inr (WebURL ''file:///src/out/Default/gen/x/y.js'', [])"
  "RewriteWebTestsURL example_platform [] (StringPiece_of ''http://example.com/a'') False
     = Inr (WebURL ''http://example.com/a'', [])"
  by (simp_all add: RewriteWebTestsURL_def StartsWith_def kGenPrefix_def kPrefix_def
      GetBuildDirectory_def GetWebTestsFilePath_def append_data_def substr_def
      StringPiece_of_def piece_chars_def example_platform_def example_append_def Let_def)

text \<open>
  C6. With \<^verbatim>\<open>is_wpt_mode\<close> false, \<^verbatim>\<open>RewriteWebTestsURL\<close> is to replace the
  prefix \<^verbatim>\<open>file:///gen/\<close> by the path of \<^verbatim>\<open>gen/\<close> under the build directory, and
  the prefix \<^verbatim>\<open>file:///tmp/web_tests/\<close> by the path of
  \<^verbatim>\<open>third_party/blink/web_tests/\<close> under the source root, for every string. The code
  appends what follows the prefix through \<^verbatim>\<open>data()\<close>, as a C string, and so does not
  replace the prefix of every string. On the example platform (source root
  \<^verbatim>\<open>/src\<close>, build directory \<^verbatim>\<open>/src/out/Default\<close>):

    \<^item> for the string \<^verbatim>\<open>file:///gen/a\<close>, a NUL character, \<^verbatim>\<open>b\<close>, the result is the URL
      \<^verbatim>\<open>file:///src/out/Default/gen/a\<close>, which is not the URL of the string with the
      prefix replaced: the NUL character and \<^verbatim>\<open>b\<close> are lost;

    \<^item> likewise for \<^verbatim>\<open>file:///tmp/web_tests/a\<close>, a NUL character, \<^verbatim>\<open>b\<close>, the
      result is \<^verbatim>\<open>file:///src/third_party/blink/web_tests/a\<close>;

    \<^item> for the piece that views the first 14 characters, \<^verbatim>\<open>file:///gen/ab\<close>, of the
      buffer \<^verbatim>\<open>file:///gen/abXYZ\<close>, the result is
      \<^verbatim>\<open>file:///src/out/Default/gen/abXYZ\<close>: the characters \<^verbatim>\<open>XYZ\<close> behind the end of
      the piece are appended too, and the result is not the URL of the piece with the
      prefix replaced.
\<close>

theorem C6_rewrite_appends_c_string:
  "RewriteWebTestsURL example_platform []
      (StringPiece_of (''file:///gen/a'' @ [CHR 0x00] @ ''b'')) False
     = Inr (WebURL ''file:///src/out/Default/gen/a'', [])
   \<and> RewriteWebTestsURL example_platform []
      (StringPiece_of (''file:///gen/a'' @ [CHR 0x00] @ ''b'')) False
     \<noteq> Inr (WebURL (GURL example_platform (''file://''
            @ Append example_platform ''/src/out/Default'' ''gen/''
            @ ''a'' @ [CHR 0x00] @ ''b'')), [])
   \<and> RewriteWebTestsURL example_platform []
      (StringPiece_of (''file:///tmp/web_tests/a'' @ [CHR 0x00] @ ''b'')) False
     = Inr (WebURL ''file:///src/third_party/blink/web_tests/a'',
            ''/src/third_party/blink/web_tests/'')
   \<and> RewriteWebTestsURL example_platform []
      (StringPiece_of (''file:///tmp/web_tests/a'' @ [CHR 0x00] @ ''b'')) False
     \<noteq> Inr (WebURL (GURL example_platform (''file://''
            @ Append example_platform ''/src'' ''third_party/blink/web_tests/''
            @ ''a'' @ [CHR 0x00] @ ''b'')), ''/src/third_party/blink/web_tests/'')
   \<and> piece_chars \<lparr>piece_buffer = ''file:///gen/abXYZ'' @ [CHR 0x00], piece_data = 0,
                    piece_size = 14\<rparr> = ''file:///gen/'' @ ''ab''
   \<and> RewriteWebTestsURL example_platform []
        \<lparr>piece_buffer = ''file:///gen/abXYZ'' @ [CHR 0x00], piece_data = 0, piece_size = 14\<rparr>
        False
     = Inr (WebURL ''file:///src/out/Default/gen/abXYZ'', [])
   \<and> RewriteWebTestsURL example_platform []
        \<lparr>piece_buffer = ''file:///gen/abXYZ'' @ [CHR 0x00], piece_data = 0, piece_size = 14\<rparr>
        False
     \<noteq> Inr (WebURL (GURL example_platform (''file://''
            @ Append example_platform ''/src/out/Default'' ''gen/'' @ ''ab'')), [])"
  by (simp add: RewriteWebTestsURL_def StartsWith_def kGenPrefix_def kPrefix_def
      GetBuildDirectory_def GetWebTestsFilePath_def append_data_def substr_def
      StringPiece_of_def piece_chars_def example_platform_def example_append_def Let_def)

end
